theory Spec2Isabelle
  imports Main
begin

chapter \<open>The model\<close>

section \<open>JavaScript strings and the process environment\<close>

text \<open>
  Strings are lists of characters. The line feed is written \<open>nl\<close>. The white space
  that \<open>String.prototype.trim\<close> and \<open>parseInt\<close> strip is modelled by its ASCII part
  (tab, line feed, vertical tab, form feed, carriage return, space); the Unicode
  spaces of ECMAScript lie outside the character type used here.
\<close>

abbreviation nl :: char where
  "nl \<equiv> CHR 0x0A"

definition is_ws :: "char \<Rightarrow> bool" where
  "is_ws c = (c = CHR 0x09 \<or> c = CHR 0x0A \<or> c = CHR 0x0B \<or> c = CHR 0x0C \<or> c = CHR 0x0D \<or> c = CHR 0x20)"

definition trim :: "string \<Rightarrow> string" where
  "trim s = rev (dropWhile is_ws (rev (dropWhile is_ws s)))"

text \<open>\<open>s.split("\n")\<close>: the pieces between line feeds; never the empty list.\<close>

fun split_nl :: "string \<Rightarrow> string list" where
  "split_nl [] = [[]]"
| "split_nl (c # cs) =
     (if c = nl then [] # split_nl cs
      else (case split_nl cs of [] \<Rightarrow> [[c]] | l # ls \<Rightarrow> (c # l) # ls))"

text \<open>\<open>xs.join(sep)\<close>.\<close>

fun join :: "string \<Rightarrow> string list \<Rightarrow> string" where
  "join sep [] = []"
| "join sep [x] = x"
| "join sep (x # y # ys) = x @ sep @ join sep (y # ys)"

definition endsWith_nl :: "string \<Rightarrow> bool" where
  "endsWith_nl s = (s \<noteq> [] \<and> last s = nl)"

text \<open>
  \<open>process.env\<close> maps variable names to strings. A read of an unset variable is
  \<open>undefined\<close>, here \<open>None\<close>. In a condition, \<open>undefined\<close> and the empty string
  are falsy and every other string is truthy; in a template literal \<open>undefined\<close>
  prints as the nine letters of its name.
\<close>

type_synonym process_env = "string \<Rightarrow> string option"

definition truthy :: "string option \<Rightarrow> bool" where
  "truthy v = (case v of None \<Rightarrow> False | Some s \<Rightarrow> s \<noteq> [])"

definition or_else :: "string option \<Rightarrow> string option \<Rightarrow> string option" where
  "or_else a b = (if truthy a then a else b)"

definition template :: "string option \<Rightarrow> string" where
  "template v = (case v of None \<Rightarrow> ''undefined'' | Some s \<Rightarrow> s)"

text \<open>A thrown \<open>Error\<close> carries its message.\<close>

datatype error = Error string

section \<open>validate-env-gitlab.ts\<close>

definition useBedrock :: "process_env \<Rightarrow> bool" where
  "useBedrock e = (e ''CLAUDE_CODE_USE_BEDROCK'' = Some ''1'' \<or> e ''CLAUDE_USE_BEDROCK'' = Some ''true'')"

definition useVertex :: "process_env \<Rightarrow> bool" where
  "useVertex e = (e ''CLAUDE_CODE_USE_VERTEX'' = Some ''1'' \<or> e ''CLAUDE_USE_VERTEX'' = Some ''true'')"

definition conflict_error :: string where
  "conflict_error = ''Cannot use both Bedrock and Vertex AI simultaneously. Please set only one provider (CLAUDE_USE_BEDROCK or CLAUDE_USE_VERTEX).''"

definition direct_error :: string where
  "direct_error = ''Either ANTHROPIC_API_KEY or CLAUDE_CODE_OAUTH_TOKEN is required when using direct Anthropic API.''"

definition project_dir_error :: string where
  "project_dir_error = ''CI_PROJECT_DIR is required in GitLab CI environment.''"

definition requiredBedrockVars :: "string list" where
  "requiredBedrockVars = [''AWS_REGION'', ''AWS_ACCESS_KEY_ID'', ''AWS_SECRET_ACCESS_KEY'']"

definition requiredVertexVars :: "string list" where
  "requiredVertexVars = [''ANTHROPIC_VERTEX_PROJECT_ID'', ''CLOUD_ML_REGION'']"

definition bedrock_error :: "string \<Rightarrow> string" where
  "bedrock_error k = k @ '' is required when using AWS Bedrock (CLAUDE_USE_BEDROCK=true).''"

definition vertex_error :: "string \<Rightarrow> string" where
  "vertex_error k = k @ '' is required when using Google Vertex AI (CLAUDE_USE_VERTEX=true).''"

text \<open>
  The \<open>forEach\<close> over the entries of a table of required variables: one error for
  each entry whose value is falsy, in the table's order.
\<close>

definition missing :: "process_env \<Rightarrow> string list \<Rightarrow> (string \<Rightarrow> string) \<Rightarrow> string list" where
  "missing e keys msg = map msg (filter (\<lambda>k. \<not> truthy (e k)) keys)"

definition oidcToken :: "process_env \<Rightarrow> string option" where
  "oidcToken e = or_else (e ''CI_JOB_JWT_V2'') (e ''CI_JOB_JWT'')"

text \<open>The contents of the array \<open>errors\<close> when the function reaches its last test.\<close>

definition validation_errors :: "process_env \<Rightarrow> string list" where
  "validation_errors e =
     (if useBedrock e \<and> useVertex e then [conflict_error] else []) @
     (if \<not> useBedrock e \<and> \<not> useVertex e then
        (if \<not> truthy (e ''ANTHROPIC_API_KEY'') \<and> \<not> truthy (e ''CLAUDE_CODE_OAUTH_TOKEN'')
         then [direct_error] else [])
      else if useBedrock e then missing e requiredBedrockVars bedrock_error
      else if useVertex e then missing e requiredVertexVars vertex_error
      else []) @
     (if truthy (e ''GITLAB_CI_MODE'') then
        (if \<not> truthy (e ''CI_PROJECT_DIR'') then [project_dir_error] else [])
      else [])"

text \<open>The lines written with \<open>console.log\<close>, in order.\<close>

definition validation_log :: "process_env \<Rightarrow> string list" where
  "validation_log e =
     (if \<not> useBedrock e \<and> \<not> useVertex e then []
      else if useBedrock e then
        (if \<not> truthy (e ''AWS_ACCESS_KEY_ID'') \<and> truthy (oidcToken e)
         then [''Using GitLab OIDC token for AWS authentication''] else [])
      else if useVertex e then
        (if \<not> truthy (e ''GOOGLE_APPLICATION_CREDENTIALS'') \<and> truthy (oidcToken e)
         then [''Using GitLab OIDC token for GCP authentication''] else [])
      else []) @
     (if truthy (e ''GITLAB_CI_MODE'') then
        [''Running in GitLab CI mode'',
         ''Project: '' @ template (e ''CI_PROJECT_PATH''),
         ''Pipeline: '' @ template (e ''CI_PIPELINE_ID''),
         ''Job: '' @ template (e ''CI_JOB_NAME'')]
      else [])"

definition validation_header :: string where
  "validation_header = ''GitLab CI environment variable validation failed:''"

definition validation_message :: "string list \<Rightarrow> string" where
  "validation_message errs =
     validation_header @ [nl] @ join [nl] (map (\<lambda>m. ''  - '' @ m) errs)"

text \<open>
  The function: what it logs, and whether it returns (\<open>Inr ()\<close>) or throws
  (\<open>Inl\<close> the error).
\<close>

definition validateEnvironmentVariablesGitLab :: "process_env \<Rightarrow> string list \<times> (error + unit)" where
  "validateEnvironmentVariablesGitLab e =
     (validation_log e,
      if length (validation_errors e) > 0
      then Inl (Error (validation_message (validation_errors e)))
      else Inr ())"

text \<open>Environments are built from association lists in the examples.\<close>

definition env_of :: "(string \<times> string) list \<Rightarrow> process_env" where
  "env_of kvs = map_of kvs"

section \<open>Numbers read from and written to strings\<close>

definition is_digit :: "char \<Rightarrow> bool" where
  "is_digit c = (48 \<le> (of_char c :: nat) \<and> (of_char c :: nat) \<le> 57)"

fun digits_val :: "nat \<Rightarrow> string \<Rightarrow> nat" where
  "digits_val acc [] = acc"
| "digits_val acc (c # cs) = digits_val (acc * 10 + (of_char c - 48)) cs"

text \<open>
  \<open>parseInt(s, 10)\<close>: leading white space is skipped, one sign is read, then the
  longest run of decimal digits; what follows the digits is ignored. With no digit
  the result is \<open>NaN\<close>, here \<open>None\<close>. The result is an exact integer here; the
  rounding of a JavaScript number beyond 2^53 is not modelled (it changes neither
  the sign nor whether the result is \<open>NaN\<close>).
\<close>

definition parseInt :: "string \<Rightarrow> int option" where
  "parseInt s =
     (let t = dropWhile is_ws s;
          neg = (t \<noteq> [] \<and> hd t = CHR ''-'');
          u = (if t \<noteq> [] \<and> (hd t = CHR ''-'' \<or> hd t = CHR ''+'') then tl t else t);
          ds = takeWhile is_digit u
      in if ds = [] then None
         else Some (if neg then - int (digits_val 0 ds) else int (digits_val 0 ds)))"

definition digit_char :: "nat \<Rightarrow> char" where
  "digit_char n = char_of (48 + n)"

function show_nat :: "nat \<Rightarrow> string" where
  "show_nat n = (if n < 10 then [digit_char n] else show_nat (n div 10) @ [digit_char (n mod 10)])"
  by pat_completeness auto
termination
  by (relation "measure id") auto

declare show_nat.simps [simp del]

definition show_int :: "int \<Rightarrow> string" where
  "show_int i = (if i < 0 then CHR ''-'' # show_nat (nat (- i)) else show_nat (nat i))"

text \<open>
  A number that may be \<open>NaN\<close> (\<open>None\<close>), as \<open>parseInt\<close> returns it, and its text in
  a template literal.
\<close>

type_synonym number = "int option"

definition show_number :: "number \<Rightarrow> string" where
  "show_number x = (case x of None \<Rightarrow> ''NaN'' | Some i \<Rightarrow> show_int i)"

section \<open>run-claude-gitlab.ts: preparing the run\<close>

record ClaudeOptions =
  allowedTools :: "string option"
  disallowedTools :: "string option"
  maxTurns :: "string option"
  mcpConfig :: "string option"
  systemPrompt :: "string option"
  appendSystemPrompt :: "string option"
  claudeEnv :: "string option"
  fallbackModel :: "string option"
  timeoutMinutes :: "string option"
  model :: "string option"

definition no_options :: ClaudeOptions where
  "no_options = \<lparr>allowedTools = None, disallowedTools = None, maxTurns = None,
     mcpConfig = None, systemPrompt = None, appendSystemPrompt = None, claudeEnv = None,
     fallbackModel = None, timeoutMinutes = None, model = None\<rparr>"

text \<open>
  A \<open>Record<string, string>\<close> is an association list in insertion order: an
  assignment to a key that is present replaces its value in place, and a new key is
  added at the end. (The engine lists keys that are array indices first; no key of
  that form is used by the code.)
\<close>

fun assign :: "string \<Rightarrow> 'v \<Rightarrow> (string \<times> 'v) list \<Rightarrow> (string \<times> 'v) list" where
  "assign k v [] = [(k, v)]"
| "assign k v ((k', v') # kvs) = (if k' = k then (k, v) # kvs else (k', v') # assign k v kvs)"

record PreparedConfig =
  claudeArgs :: "string list"
  promptPath :: string
  env :: "(string \<times> string) list"

definition BASE_ARGS :: "string list" where
  "BASE_ARGS = [''-p'', ''--verbose'', ''--output-format'', ''stream-json'']"

definition TEMP_DIR :: "process_env \<Rightarrow> string" where
  "TEMP_DIR pe =
     (case pe ''RUNNER_TEMP'' of
        Some d \<Rightarrow> if d \<noteq> [] then d else template (pe ''CI_PROJECT_DIR'') @ ''/.tmp''
      | None \<Rightarrow> template (pe ''CI_PROJECT_DIR'') @ ''/.tmp'')"

definition PIPE_PATH :: "process_env \<Rightarrow> string" where
  "PIPE_PATH pe = TEMP_DIR pe @ ''/claude_prompt_pipe''"

definition EXECUTION_FILE :: "process_env \<Rightarrow> string" where
  "EXECUTION_FILE pe = template (pe ''CI_PROJECT_DIR'') @ ''/claude-execution-output.json''"

text \<open>\<open>s.indexOf(":")\<close>, with \<open>None\<close> for \<open>-1\<close>.\<close>

fun indexOf_colon :: "string \<Rightarrow> nat option" where
  "indexOf_colon [] = None"
| "indexOf_colon (c # cs) =
     (if c = CHR '':'' then Some 0 else map_option Suc (indexOf_colon cs))"

text \<open>One turn of the loop over the lines of the custom environment block.\<close>

definition parse_env_line :: "string \<Rightarrow> (string \<times> string) list \<Rightarrow> (string \<times> string) list" where
  "parse_env_line line customEnv =
     (let trimmedLine = trim line in
      if trimmedLine = [] \<or> (trimmedLine \<noteq> [] \<and> hd trimmedLine = CHR ''#'') then customEnv
      else (case indexOf_colon trimmedLine of
              None \<Rightarrow> customEnv
            | Some colonIndex \<Rightarrow>
                (let key = trim (take colonIndex trimmedLine);
                     val = trim (drop (colonIndex + 1) trimmedLine)
                 in if key \<noteq> [] then assign key val customEnv else customEnv)))"

definition parseCustomEnvVars :: "string option \<Rightarrow> (string \<times> string) list" where
  "parseCustomEnvVars ce =
     (case ce of
        None \<Rightarrow> []
      | Some s \<Rightarrow> if s = [] \<or> trim s = [] then [] else fold parse_env_line (split_nl s) [])"

text \<open>\<open>if (v) claudeArgs.push(flag, v)\<close>.\<close>

definition push_opt :: "string \<Rightarrow> string option \<Rightarrow> string list" where
  "push_opt flag v = (case v of None \<Rightarrow> [] | Some s \<Rightarrow> if s \<noteq> [] then [flag, s] else [])"

text \<open>
  The test of a numeric option: skipped when the option is falsy, and otherwise an
  error unless \<open>parseInt\<close> gives a number greater than zero.
\<close>

definition not_positive :: "string \<Rightarrow> bool" where
  "not_positive s = (case parseInt s of None \<Rightarrow> True | Some n \<Rightarrow> n \<le> 0)"

definition positive_error :: "string \<Rightarrow> string \<Rightarrow> error" where
  "positive_error name s = Error (name @ '' must be a positive number, got: '' @ s)"

definition check_positive :: "string \<Rightarrow> string option \<Rightarrow> error + unit" where
  "check_positive name v =
     (case v of
        None \<Rightarrow> Inr ()
      | Some s \<Rightarrow> if s = [] then Inr ()
                  else if not_positive s then Inl (positive_error name s) else Inr ())"

text \<open>
  The two tests are the only statements of the function that can throw. They are made
  in the order of the source (the turn limit first); the argument list has the order
  of the source's pushes.
\<close>

definition prepareRunConfig :: "process_env \<Rightarrow> string \<Rightarrow> ClaudeOptions \<Rightarrow> error + PreparedConfig" where
  "prepareRunConfig pe path options =
     (case check_positive ''maxTurns'' (maxTurns options) of
        Inl e \<Rightarrow> Inl e
      | Inr _ \<Rightarrow>
         (case check_positive ''timeoutMinutes'' (timeoutMinutes options) of
            Inl e \<Rightarrow> Inl e
          | Inr _ \<Rightarrow>
             (let customEnv = parseCustomEnvVars (claudeEnv options) in
              Inr \<lparr>claudeArgs =
                     BASE_ARGS
                     @ push_opt ''--allowedTools'' (allowedTools options)
                     @ push_opt ''--disallowedTools'' (disallowedTools options)
                     @ push_opt ''--max-turns'' (maxTurns options)
                     @ push_opt ''--mcp-config'' (mcpConfig options)
                     @ push_opt ''--system-prompt'' (systemPrompt options)
                     @ push_opt ''--append-system-prompt'' (appendSystemPrompt options)
                     @ push_opt ''--fallback-model'' (fallbackModel options)
                     @ push_opt ''--model'' (model options),
                   promptPath = path,
                   env = (case pe ''GITLAB_CI_MODE'' of
                            None \<Rightarrow> customEnv
                          | Some m \<Rightarrow> if m \<noteq> [] then assign ''GITLAB_CI_INPUTS'' m customEnv
                                      else customEnv)\<rparr>)))"


section \<open>run-claude-gitlab.ts: the run\<close>

text \<open>
  What the run does to the world is a list of effects, in order. What the world does
  to the run is given beforehand: whether the directory and the pipe can be made, the
  size of the prompt file, the events delivered to the handlers, and the results of
  the post-processing steps. Wiring one stream into another and registering a handler
  are not listed as effects.
\<close>

datatype proc = CatProcess | ClaudeProcess | PipeProcess

datatype signal = SIGTERM | SIGKILL

datatype effect =
    MkdirSync string
  | Unlink string
  | ExecAsync string
  | Stat string
  | ConsoleLog string
  | ConsoleError string
  | ConsoleWarn string
  | Spawn proc string "string list" "(string \<times> string) list"
  | CreateWriteStream string
  | PipeStreamDestroy
  | StdoutWrite string
  | Kill proc signal
  | SetTimeout number
  | ClearTimeout
  | WriteFile string string
  | AppendFileSync string string
  | ProcessExit int

text \<open>
  The events: a chunk of the assistant's standard output, an error of that stream, an
  error of the prompt reader, of the pipe reader or of the assistant process, the
  close of the assistant process with its exit code (\<open>None\<close> is \<open>null\<close>), the expiry
  of the watchdog timer, and the expiry of the five-second timer that follows it.
  An error event carries the text of its error.
\<close>

datatype event =
    Data string
  | StdoutError string
  | CatError string
  | PipeError string
  | ClaudeError string
  | Close "int option"
  | Timeout
  | GraceExpired

record world =
  mkdir_error :: "string option"
  mkfifo_error :: "string option"
  prompt_size :: "nat option"
  events :: "event list"
  write_output_error :: "string option"
  jq_result :: "string + string"
  write_execution_error :: "string option"

datatype outcome = Returned | Exited int | Threw error | Pending

subsection \<open>The relay of the assistant's output\<close>

text \<open>
  The handler of a chunk splits it at line feeds and visits each piece with its
  index. \<open>JSON.parse\<close> and \<open>JSON.stringify(_, null, 2)\<close> belong to the runtime:
  they are the parameters \<open>P\<close> (with \<open>None\<close> for a thrown syntax error) and \<open>S\<close>.
  The result lists the strings passed to \<open>process.stdout.write\<close>.
\<close>

fun relay_lines :: "(string \<Rightarrow> 'j option) \<Rightarrow> ('j \<Rightarrow> string) \<Rightarrow> bool \<Rightarrow> nat \<Rightarrow> nat \<Rightarrow> string list \<Rightarrow> string list" where
  "relay_lines P S ends n index [] = []"
| "relay_lines P S ends n index (line # rest) =
     (if trim line = [] then []
      else (case P line of
              Some parsed \<Rightarrow> S parsed # (if int index < int n - 1 \<or> ends then [[nl]] else [])
            | None \<Rightarrow> line # (if int index < int n - 1 \<or> ends then [[nl]] else [])))
     @ relay_lines P S ends n (index + 1) rest"

definition relay_writes :: "(string \<Rightarrow> 'j option) \<Rightarrow> ('j \<Rightarrow> string) \<Rightarrow> string \<Rightarrow> string list" where
  "relay_writes P S text =
     (let lines = split_nl text in relay_lines P S (endsWith_nl text) (length lines) 0 lines)"

text \<open>What reaches standard output for one chunk.\<close>

definition relay :: "(string \<Rightarrow> 'j option) \<Rightarrow> ('j \<Rightarrow> string) \<Rightarrow> string \<Rightarrow> string" where
  "relay P S text = concat (relay_writes P S text)"

subsection \<open>The handlers\<close>

text \<open>
  The state the handlers share: the captured output (the variable \<open>output\<close>), the flag \<open>resolved\<close>, every
  argument \<open>resolve\<close> was called with (in order), whether the watchdog timer was
  cleared, whether the five-second timer is armed, and the effects so far.
\<close>

record run_state =
  output_text :: string
  resolved :: bool
  resolutions :: "int list"
  timer_cleared :: bool
  grace_armed :: bool
  effects :: "effect list"

definition emit :: "effect list \<Rightarrow> run_state \<Rightarrow> run_state" where
  "emit es st = st\<lparr>effects := effects st @ es\<rparr>"

text \<open>\<open>code || 0\<close>.\<close>

definition code_or_zero :: "int option \<Rightarrow> int" where
  "code_or_zero code = (case code of None \<Rightarrow> 0 | Some c \<Rightarrow> if c = 0 then 0 else c)"

definition on_timeout :: "number \<Rightarrow> run_state \<Rightarrow> run_state" where
  "on_timeout timeoutMs st =
     (if \<not> resolved st then
        (emit [ConsoleError (''Claude process timed out after ''
                 @ show_number (map_option (\<lambda>t. t div 1000) timeoutMs) @ '' seconds''),
               Kill ClaudeProcess SIGTERM,
               SetTimeout (Some 5000)] st)
          \<lparr>grace_armed := True, resolved := True, resolutions := resolutions st @ [124]\<rparr>
      else st)"

definition on_close :: "int option \<Rightarrow> run_state \<Rightarrow> run_state" where
  "on_close code st =
     (if \<not> resolved st then
        (emit [ClearTimeout] st)
          \<lparr>timer_cleared := True, resolved := True,
           resolutions := resolutions st @ [code_or_zero code]\<rparr>
      else st)"

definition on_error :: "string \<Rightarrow> run_state \<Rightarrow> run_state" where
  "on_error err st =
     (if \<not> resolved st then
        (emit [ConsoleError (''Claude process error: '' @ err), ClearTimeout] st)
          \<lparr>timer_cleared := True, resolved := True, resolutions := resolutions st @ [1]\<rparr>
      else st)"

text \<open>
  One event. The assistant's \<open>error\<close> event runs both of its handlers, in the order
  of their registration. A timer that was cleared does not fire, and the five-second
  timer fires only once armed.
\<close>

fun handle_event :: "(string \<Rightarrow> 'j option) \<Rightarrow> ('j \<Rightarrow> string) \<Rightarrow> number \<Rightarrow> run_state \<Rightarrow> event \<Rightarrow> run_state" where
  "handle_event P S timeoutMs st (Data text) =
     (emit (map StdoutWrite (relay_writes P S text)) st)\<lparr>output_text := output_text st @ text\<rparr>"
| "handle_event P S timeoutMs st (StdoutError err) =
     emit [ConsoleError (''Error reading Claude stdout: '' @ err)] st"
| "handle_event P S timeoutMs st (CatError err) =
     emit [ConsoleError (''Error reading prompt file: '' @ err), PipeStreamDestroy] st"
| "handle_event P S timeoutMs st (PipeError err) =
     emit [ConsoleError (''Error reading from named pipe: '' @ err), Kill ClaudeProcess SIGTERM] st"
| "handle_event P S timeoutMs st (ClaudeError err) =
     on_error err (emit [ConsoleError (''Error spawning Claude process: '' @ err), PipeStreamDestroy] st)"
| "handle_event P S timeoutMs st (Close code) = on_close code st"
| "handle_event P S timeoutMs st Timeout =
     (if timer_cleared st then st else on_timeout timeoutMs st)"
| "handle_event P S timeoutMs st GraceExpired =
     (if grace_armed st then (emit [Kill ClaudeProcess SIGKILL] st)\<lparr>grace_armed := False\<rparr> else st)"

text \<open>All the events of a list, in order.\<close>

definition handle_events :: "(string \<Rightarrow> 'j option) \<Rightarrow> ('j \<Rightarrow> string) \<Rightarrow> number \<Rightarrow> run_state \<Rightarrow> event list \<Rightarrow> run_state" where
  "handle_events P S timeoutMs st evs = fold (\<lambda>ev st'. handle_event P S timeoutMs st' ev) evs st"

text \<open>
  The promise settles with the argument of the first call of \<open>resolve\<close>; later calls
  have no effect on it.
\<close>

definition settled :: "run_state \<Rightarrow> int option" where
  "settled st = (case resolutions st of [] \<Rightarrow> None | c # _ \<Rightarrow> Some c)"

text \<open>
  \<open>await\<close>: events are handled until the promise is settled. The result is the exit
  code, the state, and the events still to come; \<open>None\<close> when the events end with the
  promise pending.
\<close>

fun await_exit :: "(string \<Rightarrow> 'j option) \<Rightarrow> ('j \<Rightarrow> string) \<Rightarrow> number \<Rightarrow> run_state \<Rightarrow> event list \<Rightarrow> (int \<times> run_state \<times> event list) option" where
  "await_exit P S timeoutMs st [] = None"
| "await_exit P S timeoutMs st (ev # evs) =
     (let st' = handle_event P S timeoutMs st ev in
      case settled st' of
        Some c \<Rightarrow> Some (c, st', evs)
      | None \<Rightarrow> await_exit P S timeoutMs st' evs)"

subsection \<open>The timeout\<close>

text \<open>
  The per-run option wins over the environment variable, and only the environment
  variable is tested here: the option was tested by \<open>prepareRunConfig\<close>. The
  quotient \<open>timeoutMs / 1000\<close> of the log line is exact, the timeout being a multiple
  of 60000.
\<close>

definition resolve_timeout :: "process_env \<Rightarrow> ClaudeOptions \<Rightarrow> error + number" where
  "resolve_timeout pe options =
     (if truthy (timeoutMinutes options) then
        Inr (map_option (\<lambda>n. n * 60 * 1000) (parseInt (template (timeoutMinutes options))))
      else if truthy (pe ''CLAUDE_TIMEOUT_MINUTES'') then
        (case parseInt (template (pe ''CLAUDE_TIMEOUT_MINUTES'')) of
           None \<Rightarrow> Inl (positive_error ''CLAUDE_TIMEOUT_MINUTES'' (template (pe ''CLAUDE_TIMEOUT_MINUTES'')))
         | Some envTimeout \<Rightarrow>
             if envTimeout \<le> 0
             then Inl (positive_error ''CLAUDE_TIMEOUT_MINUTES'' (template (pe ''CLAUDE_TIMEOUT_MINUTES'')))
             else Inr (Some (envTimeout * 60 * 1000)))
      else Inr (Some (10 * 60 * 1000)))"

subsection \<open>Outputs of the job (class GitLabOutput of cli.ts)\<close>

definition setOutput :: "process_env \<Rightarrow> string \<Rightarrow> string \<Rightarrow> effect list" where
  "setOutput pe name v =
     [ConsoleLog (''::set-output name='' @ name @ ''::'' @ v),
      AppendFileSync
        (case pe ''GITLAB_ENV'' of Some f \<Rightarrow> if f \<noteq> [] then f else ''/dev/null'' | None \<Rightarrow> ''/dev/null'')
        (name @ ''='' @ v @ [nl])]"

definition warning :: "string \<Rightarrow> effect list" where
  "warning message = [ConsoleWarn (''Warning: '' @ message)]"

subsection \<open>After the promise\<close>

text \<open>
  The three post-processing steps inside one \<open>try\<close>: the effects made, and the error
  that ended them, if any.
\<close>

definition post_process :: "process_env \<Rightarrow> world \<Rightarrow> string \<Rightarrow> effect list \<times> string option" where
  "post_process pe w out =
     (case write_output_error w of
        Some err \<Rightarrow> ([WriteFile ''output.txt'' out], Some err)
      | None \<Rightarrow>
         (case jq_result w of
            Inl err \<Rightarrow> ([WriteFile ''output.txt'' out, ExecAsync ''jq -s '.' output.txt''], Some err)
          | Inr jsonOutput \<Rightarrow>
             (case write_execution_error w of
                Some err \<Rightarrow>
                  ([WriteFile ''output.txt'' out, ExecAsync ''jq -s '.' output.txt'',
                    WriteFile (EXECUTION_FILE pe) jsonOutput], Some err)
              | None \<Rightarrow>
                  ([WriteFile ''output.txt'' out, ExecAsync ''jq -s '.' output.txt'',
                    WriteFile (EXECUTION_FILE pe) jsonOutput], None))))"

definition conclude :: "process_env \<Rightarrow> world \<Rightarrow> int \<Rightarrow> string \<Rightarrow> effect list \<times> outcome" where
  "conclude pe w exitCode out =
     (if exitCode = 0 then
        ((case post_process pe w out of
            (es, None) \<Rightarrow> es @ [ConsoleLog (''Log saved to '' @ EXECUTION_FILE pe)]
          | (es, Some err) \<Rightarrow>
              es @ warning (''Failed to process output for execution metrics: '' @ err))
         @ setOutput pe ''conclusion'' ''success''
         @ setOutput pe ''execution_file'' (EXECUTION_FILE pe),
         Returned)
      else
        (setOutput pe ''conclusion'' ''failure''
         @ (if out \<noteq> [] then
              (case post_process pe w out of
                 (es, None) \<Rightarrow> es @ setOutput pe ''execution_file'' (EXECUTION_FILE pe)
               | (es, Some err) \<Rightarrow> es)
            else [])
         @ [ProcessExit exitCode],
         Exited exitCode))"

subsection \<open>runClaudeGitLab\<close>

definition initial_state :: "effect list \<Rightarrow> run_state" where
  "initial_state es = \<lparr>output_text = [], resolved = False, resolutions = [], timer_cleared = False,
     grace_armed = False, effects = es\<rparr>"

text \<open>The effects from the temporary directory to the third spawn.\<close>

definition before_mkfifo :: "process_env \<Rightarrow> effect list" where
  "before_mkfifo pe =
     [MkdirSync (TEMP_DIR pe), Unlink (PIPE_PATH pe),
      ExecAsync (''mkfifo '' @ [CHR 0x22] @ PIPE_PATH pe @ [CHR 0x22])]"

definition customEnvKeys :: "PreparedConfig \<Rightarrow> string list" where
  "customEnvKeys config = filter (\<lambda>key. key \<noteq> ''GITLAB_CI_INPUTS'') (map fst (env config))"

definition announce :: "world \<Rightarrow> PreparedConfig \<Rightarrow> effect list" where
  "announce w config =
     [Stat (promptPath config),
      ConsoleLog (''Prompt file size: ''
        @ (case prompt_size w of None \<Rightarrow> ''unknown'' | Some n \<Rightarrow> show_nat n) @ '' bytes'')]
     @ (if length (customEnvKeys config) > 0
        then [ConsoleLog (''Custom environment variables: '' @ join '', '' (customEnvKeys config))]
        else [])
     @ [ConsoleLog (''Running Claude with prompt from file: '' @ promptPath config)]"

definition spawn_all :: "process_env \<Rightarrow> PreparedConfig \<Rightarrow> effect list" where
  "spawn_all pe config =
     [Spawn CatProcess ''cat'' [promptPath config] [],
      CreateWriteStream (PIPE_PATH pe),
      Spawn ClaudeProcess ''claude'' (claudeArgs config) (env config),
      Spawn PipeProcess ''cat'' [PIPE_PATH pe] []]"

text \<open>
  The whole function. After the promise settles the two helper processes are
  signalled and the pipe is removed; the events still to come are handled while the
  function waits for that removal, and the conclusion follows.
\<close>

definition runClaudeGitLab :: "(string \<Rightarrow> 'j option) \<Rightarrow> ('j \<Rightarrow> string) \<Rightarrow> process_env \<Rightarrow> world \<Rightarrow> string \<Rightarrow> ClaudeOptions \<Rightarrow> effect list \<times> outcome" where
  "runClaudeGitLab P S pe w path options =
     (case prepareRunConfig pe path options of
        Inl e \<Rightarrow> ([], Threw e)
      | Inr config \<Rightarrow>
         (case mkdir_error w of
            Some err \<Rightarrow> ([MkdirSync (TEMP_DIR pe)], Threw (Error err))
          | None \<Rightarrow>
             (case mkfifo_error w of
                Some err \<Rightarrow> (before_mkfifo pe, Threw (Error err))
              | None \<Rightarrow>
                 (case resolve_timeout pe options of
                    Inl e \<Rightarrow> (before_mkfifo pe @ announce w config @ spawn_all pe config, Threw e)
                  | Inr timeoutMs \<Rightarrow>
                     (case await_exit P S timeoutMs
                             (initial_state (before_mkfifo pe @ announce w config
                                @ spawn_all pe config @ [SetTimeout timeoutMs]))
                             (events w) of
                        None \<Rightarrow>
                          (effects (handle_events P S timeoutMs
                             (initial_state (before_mkfifo pe @ announce w config
                                @ spawn_all pe config @ [SetTimeout timeoutMs]))
                             (events w)), Pending)
                      | Some (exitCode, st, later) \<Rightarrow>
                         (let st' = handle_events P S timeoutMs
                                (emit [Kill CatProcess SIGTERM, Kill PipeProcess SIGTERM,
                                       Unlink (PIPE_PATH pe)] st) later;
                              (es, result) = conclude pe w exitCode (output_text st')
                          in (effects st' @ es, result)))))))"

text \<open>The exit code the promise of a run settles with, for the events of a list.\<close>

definition exit_code :: "(string \<Rightarrow> 'j option) \<Rightarrow> ('j \<Rightarrow> string) \<Rightarrow> number \<Rightarrow> event list \<Rightarrow> int option" where
  "exit_code P S timeoutMs evs = settled (handle_events P S timeoutMs (initial_state []) evs)"


section \<open>JSON\<close>

text \<open>
  A JSON value. Numbers are integers here: the reader below refuses a fraction or an
  exponent, and string escapes, so it accepts fewer texts than \<open>JSON.parse\<close> and
  agrees with it on those it accepts (for objects whose keys are not array indices,
  which the engine would list first). The general results take the reader and the
  printer as parameters; this reader and this printer evaluate the examples.
\<close>

datatype json =
    JNull
  | JBool bool
  | JNumber int
  | JString string
  | JArray "json list"
  | JObject "(string \<times> json) list"

text \<open>The reader: white space, strings, numbers, then values by recursive descent.\<close>

definition json_ws :: "char \<Rightarrow> bool" where
  "json_ws c = (c = CHR 0x20 \<or> c = CHR 0x09 \<or> c = CHR 0x0A \<or> c = CHR 0x0D)"

definition skip_ws :: "string \<Rightarrow> string" where
  "skip_ws s = dropWhile json_ws s"

fun read_string :: "string \<Rightarrow> (string \<times> string) option" where
  "read_string [] = None"
| "read_string (c # cs) =
     (if c = CHR 0x22 then Some ([], cs)
      else if c = CHR 0x5C \<or> (of_char c :: nat) < 32 then None
      else (case read_string cs of None \<Rightarrow> None | Some (str, r) \<Rightarrow> Some (c # str, r)))"

definition read_number :: "string \<Rightarrow> (int \<times> string) option" where
  "read_number s =
     (let neg = (s \<noteq> [] \<and> hd s = CHR ''-'');
          u = (if neg then tl s else s);
          ds = takeWhile is_digit u;
          r = dropWhile is_digit u
      in if ds = [] \<or> (hd ds = CHR ''0'' \<and> length ds > 1) then None
         else if r \<noteq> [] \<and> (hd r = CHR ''.'' \<or> hd r = CHR ''e'' \<or> hd r = CHR ''E'') then None
         else Some (if neg then - int (digits_val 0 ds) else int (digits_val 0 ds), r))"

text \<open>
  The fuel bounds the number of nested calls of the descent; \<open>JSON_parse\<close> starts
  with twice the length of the text and two more.
\<close>

fun read_value :: "nat \<Rightarrow> string \<Rightarrow> (json \<times> string) option"
  and read_elements :: "nat \<Rightarrow> json list \<Rightarrow> string \<Rightarrow> (json \<times> string) option"
  and read_members :: "nat \<Rightarrow> (string \<times> json) list \<Rightarrow> string \<Rightarrow> (json \<times> string) option" where
  "read_value 0 s = None"
| "read_value (Suc fuel) s =
     (case skip_ws s of
        [] \<Rightarrow> None
      | c # cs \<Rightarrow>
          if c = CHR ''{'' then
            (case skip_ws cs of
               [] \<Rightarrow> None
             | d # ds \<Rightarrow> if d = CHR ''}'' then Some (JObject [], ds) else read_members fuel [] cs)
          else if c = CHR ''['' then
            (case skip_ws cs of
               [] \<Rightarrow> None
             | d # ds \<Rightarrow> if d = CHR '']'' then Some (JArray [], ds) else read_elements fuel [] cs)
          else if c = CHR 0x22 then
            (case read_string cs of None \<Rightarrow> None | Some (str, r) \<Rightarrow> Some (JString str, r))
          else if take 4 (c # cs) = ''true'' then Some (JBool True, drop 4 (c # cs))
          else if take 5 (c # cs) = ''false'' then Some (JBool False, drop 5 (c # cs))
          else if take 4 (c # cs) = ''null'' then Some (JNull, drop 4 (c # cs))
          else (case read_number (c # cs) of None \<Rightarrow> None | Some (n, r) \<Rightarrow> Some (JNumber n, r)))"
| "read_elements 0 acc s = None"
| "read_elements (Suc fuel) acc s =
     (case read_value fuel s of
        None \<Rightarrow> None
      | Some (v, r) \<Rightarrow>
          (case skip_ws r of
             [] \<Rightarrow> None
           | d # ds \<Rightarrow>
               if d = CHR '','' then read_elements fuel (acc @ [v]) ds
               else if d = CHR '']'' then Some (JArray (acc @ [v]), ds)
               else None))"
| "read_members 0 acc s = None"
| "read_members (Suc fuel) acc s =
     (case skip_ws s of
        [] \<Rightarrow> None
      | q # qs \<Rightarrow>
          if q \<noteq> CHR 0x22 then None
          else (case read_string qs of
                  None \<Rightarrow> None
                | Some (k, r) \<Rightarrow>
                    (case skip_ws r of
                       [] \<Rightarrow> None
                     | c # cs \<Rightarrow>
                         if c \<noteq> CHR '':'' then None
                         else (case read_value fuel cs of
                                 None \<Rightarrow> None
                               | Some (v, r') \<Rightarrow>
                                   (case skip_ws r' of
                                      [] \<Rightarrow> None
                                    | d # ds \<Rightarrow>
                                        if d = CHR '','' then read_members fuel (assign k v acc) ds
                                        else if d = CHR ''}'' then Some (JObject (assign k v acc), ds)
                                        else None)))))"

definition JSON_parse :: "string \<Rightarrow> json option" where
  "JSON_parse s =
     (case read_value (2 * length s + 2) s of
        None \<Rightarrow> None
      | Some (v, r) \<Rightarrow> if skip_ws r = [] then Some v else None)"

text \<open>\<open>JSON.stringify(v, null, 2)\<close>: members on lines of their own, indented by two spaces a level.\<close>

definition hex_digit :: "nat \<Rightarrow> char" where
  "hex_digit n = (if n < 10 then char_of (48 + n) else char_of (87 + n))"

definition escape_char :: "char \<Rightarrow> string" where
  "escape_char c =
     (if c = CHR 0x22 then [CHR 0x5C, CHR 0x22]
      else if c = CHR 0x5C then [CHR 0x5C, CHR 0x5C]
      else if c = CHR 0x08 then [CHR 0x5C, CHR ''b'']
      else if c = CHR 0x0C then [CHR 0x5C, CHR ''f'']
      else if c = CHR 0x0A then [CHR 0x5C, CHR ''n'']
      else if c = CHR 0x0D then [CHR 0x5C, CHR ''r'']
      else if c = CHR 0x09 then [CHR 0x5C, CHR ''t'']
      else if (of_char c :: nat) < 32
        then [CHR 0x5C, CHR ''u'', CHR ''0'', CHR ''0'',
              hex_digit ((of_char c :: nat) div 16), hex_digit ((of_char c :: nat) mod 16)]
      else [c])"

definition quote :: "string \<Rightarrow> string" where
  "quote s = [CHR 0x22] @ concat (map escape_char s) @ [CHR 0x22]"

fun pretty :: "string \<Rightarrow> json \<Rightarrow> string" where
  "pretty ind JNull = ''null''"
| "pretty ind (JBool b) = (if b then ''true'' else ''false'')"
| "pretty ind (JNumber n) = show_int n"
| "pretty ind (JString s) = quote s"
| "pretty ind (JArray vs) =
     (if vs = [] then ''[]''
      else ''['' @ [nl]
           @ join ('','' @ [nl]) (map (\<lambda>v. ind @ ''  '' @ pretty (ind @ ''  '') v) vs)
           @ [nl] @ ind @ '']'')"
| "pretty ind (JObject kvs) =
     (if kvs = [] then ''{}''
      else ''{'' @ [nl]
           @ join ('','' @ [nl])
               (map (\<lambda>kv. ind @ ''  '' @ quote (fst kv) @ '': '' @ pretty (ind @ ''  '') (snd kv)) kvs)
           @ [nl] @ ind @ ''}'')"

definition JSON_stringify2 :: "json \<Rightarrow> string" where
  "JSON_stringify2 v = pretty [] v"


section \<open>Completing events and their exit codes\<close>

text \<open>
  Three kinds of event can settle the promise. The exit code each of them asks for:
  the assistant's own code (zero for \<open>null\<close>) on close, 1 on error, 124 on timeout.
\<close>

definition completes :: "event \<Rightarrow> bool" where
  "completes ev = (case ev of Close _ \<Rightarrow> True | ClaudeError _ \<Rightarrow> True | Timeout \<Rightarrow> True | _ \<Rightarrow> False)"

definition completion_code :: "event \<Rightarrow> int" where
  "completion_code ev =
     (case ev of Close code \<Rightarrow> code_or_zero code | ClaudeError _ \<Rightarrow> 1 | Timeout \<Rightarrow> 124 | _ \<Rightarrow> 0)"

text \<open>A state in which nothing has settled the promise and the watchdog is armed.\<close>

definition pending :: "run_state \<Rightarrow> bool" where
  "pending st = (\<not> resolved st \<and> \<not> timer_cleared st \<and> resolutions st = [])"

text \<open>A world in which every system call succeeds, with the events given.\<close>

definition calm_world :: "event list \<Rightarrow> world" where
  "calm_world evs = \<lparr>mkdir_error = None, mkfifo_error = None, prompt_size = Some 12,
     events = evs, write_output_error = None, jq_result = Inr ''[]'',
     write_execution_error = None\<rparr>"

section \<open>The relay that keeps every line\<close>

text \<open>A line is relayed pretty-printed when it parses and verbatim when it does not.\<close>

definition render_line :: "(string \<Rightarrow> 'j option) \<Rightarrow> ('j \<Rightarrow> string) \<Rightarrow> string \<Rightarrow> string" where
  "render_line P S line = (case P line of Some parsed \<Rightarrow> S parsed | None \<Rightarrow> line)"

text \<open>
  The relay as the spec words it (section 4.4, output relay): every line of the chunk
  rendered, and the line feeds of the chunk kept where they were.
\<close>

definition relay_as_claimed :: "(string \<Rightarrow> 'j option) \<Rightarrow> ('j \<Rightarrow> string) \<Rightarrow> string \<Rightarrow> string" where
  "relay_as_claimed P S text = join [nl] (map (render_line P S) (split_nl text))"

definition blank :: "string \<Rightarrow> bool" where
  "blank line = (trim line = [])"

section \<open>The settings merger\<close>

text \<open>
  Modelled from the spec: the function \<open>setupClaudeCodeSettings\<close> of
  \<open>src/setup-claude-code-settings.ts\<close>, of which the sources hold the tests and the
  caller only. The spec, sections 3 and 4.2: the input is absent or blank (no new
  settings), or a JSON text, or else the path of a file holding a JSON text, and
  anything else is an error; the document at the fixed path is read if present, the
  new top-level keys are laid over it (a shallow merge), one boolean field is set to
  true, and the result replaces the document. The name of the forced field and the
  fixed path are those of the tests.

  The settings file is modelled by the document it holds, the files an input can name
  by their texts. A JSON value that is not an object has no top-level key.
\<close>

type_synonym document = "(string \<times> json) list"

type_synonym store = "string \<Rightarrow> document option"

datatype settings_error = NeitherJsonNorFile string | FileNotJson string

definition FORCED_FIELD :: string where
  "FORCED_FIELD = ''enableAllProjectMcpServers''"

definition settingsPath :: "string \<Rightarrow> string" where
  "settingsPath home = home @ ''/.claude/settings.json''"

definition members :: "json \<Rightarrow> document" where
  "members v = (case v of JObject kvs \<Rightarrow> kvs | _ \<Rightarrow> [])"

definition resolve_input :: "(string \<Rightarrow> json option) \<Rightarrow> (string \<Rightarrow> string option) \<Rightarrow> string option \<Rightarrow> settings_error + document" where
  "resolve_input P files rawInput =
     (case rawInput of
        None \<Rightarrow> Inr []
      | Some s \<Rightarrow>
          if trim s = [] then Inr []
          else (case P s of
                  Some v \<Rightarrow> Inr (members v)
                | None \<Rightarrow>
                    (case files s of
                       None \<Rightarrow> Inl (NeitherJsonNorFile s)
                     | Some content \<Rightarrow>
                         (case P content of
                            None \<Rightarrow> Inl (FileNotJson s)
                          | Some v \<Rightarrow> Inr (members v)))))"

definition shallow_merge :: "document \<Rightarrow> document \<Rightarrow> document" where
  "shallow_merge old new = fold (\<lambda>kv doc. assign (fst kv) (snd kv) doc) new old"

definition setupClaudeCodeSettings :: "(string \<Rightarrow> json option) \<Rightarrow> (string \<Rightarrow> string option) \<Rightarrow> string \<Rightarrow> store \<Rightarrow> string option \<Rightarrow> settings_error + store" where
  "setupClaudeCodeSettings P files home disk rawInput =
     (case resolve_input P files rawInput of
        Inl e \<Rightarrow> Inl e
      | Inr new \<Rightarrow>
          Inr (disk(settingsPath home \<mapsto>
                 assign FORCED_FIELD (JBool True)
                   (shallow_merge
                      (case disk (settingsPath home) of None \<Rightarrow> [] | Some doc \<Rightarrow> doc) new))))"

text \<open>The field of a document, as a reader of the file sees it.\<close>

definition lookup_field :: "document \<Rightarrow> string \<Rightarrow> json option" where
  "lookup_field doc k = map_of doc k"

text \<open>A disk with no settings file, and no readable file.\<close>

definition empty_disk :: store where
  "empty_disk = (\<lambda>p. None)"

definition no_files :: "string \<Rightarrow> string option" where
  "no_files = (\<lambda>p. None)"


text \<open>
  For the proofs: a list of assignments laid over a document, and the value the
  assignments leave at a key.
\<close>

definition last_value :: "(string \<times> 'v) list \<Rightarrow> string \<Rightarrow> 'v \<Rightarrow> 'v" where
  "last_value m k v = (case map_of (rev m) k of Some w \<Rightarrow> w | None \<Rightarrow> v)"

definition lay_over :: "(string \<times> 'v) list \<Rightarrow> (string \<times> 'v) list \<Rightarrow> (string \<times> 'v) list" where
  "lay_over m xs = fold (\<lambda>kv doc. assign (fst kv) (snd kv) doc) m xs"


chapter \<open>Properties\<close>

section \<open>Lines\<close>

lemma split_nl_not_Nil: "split_nl s \<noteq> []"
  by (induction s) (auto split: list.splits)

lemma split_nl_no_nl: "nl \<notin> set s \<Longrightarrow> split_nl s = [s]"
  by (induction s) auto

lemma split_nl_append: "nl \<notin> set h \<Longrightarrow> split_nl (h @ nl # r) = h # split_nl r"
  by (induction h) auto

lemma split_nl_join:
  "ls \<noteq> [] \<Longrightarrow> \<forall>l \<in> set ls. nl \<notin> set l \<Longrightarrow> split_nl (join [nl] ls) = ls"
proof (induction ls)
  case Nil
  then show ?case by simp
next
  case (Cons x xs)
  show ?case
  proof (cases xs)
    case Nil
    with Cons.prems show ?thesis by (simp add: split_nl_no_nl)
  next
    case (Cons y ys)
    with Cons.IH Cons.prems show ?thesis by (simp add: split_nl_append)
  qed
qed

section \<open>The environment validator\<close>

lemma validation_errors_no_nl: "m \<in> set (validation_errors e) \<Longrightarrow> nl \<notin> set m"
  by (auto simp: validation_errors_def missing_def conflict_error_def direct_error_def
      project_dir_error_def requiredBedrockVars_def requiredVertexVars_def bedrock_error_def
      vertex_error_def split: if_splits)

lemma validation_message_lines:
  assumes "errs \<noteq> []" and "\<forall>m \<in> set errs. nl \<notin> set m"
  shows "split_nl (validation_message errs) = validation_header # map (\<lambda>m. ''  - '' @ m) errs"
proof -
  have "nl \<notin> set validation_header" by (simp add: validation_header_def)
  moreover have "split_nl (join [nl] (map (\<lambda>m. ''  - '' @ m) errs)) = map (\<lambda>m. ''  - '' @ m) errs"
    using assms by (intro split_nl_join) auto
  ultimately show ?thesis
    by (simp add: validation_message_def split_nl_append)
qed

text \<open>
  Claim C6. For every process environment the validator either returns normally
  (when it found no problem) or throws one error, and the lines of that error's
  message are the header followed by one line for each entry of the array of errors,
  in order. Every problem the function tests for is an entry of that array whenever
  its condition holds: the provider conflict, the missing direct credential, each
  missing Bedrock variable, each missing Vertex variable (tested when Bedrock is not
  selected), and the missing project directory.
\<close>

theorem validate_lists_every_error:
  "(validation_errors e = [] \<longrightarrow> snd (validateEnvironmentVariablesGitLab e) = Inr ()) \<and>
   (validation_errors e \<noteq> [] \<longrightarrow>
      (\<exists>msg. snd (validateEnvironmentVariablesGitLab e) = Inl (Error msg) \<and>
         split_nl msg = validation_header # map (\<lambda>m. ''  - '' @ m) (validation_errors e))) \<and>
   (useBedrock e \<and> useVertex e \<longrightarrow> conflict_error \<in> set (validation_errors e)) \<and>
   (\<not> useBedrock e \<and> \<not> useVertex e \<and> \<not> truthy (e ''ANTHROPIC_API_KEY'') \<and>
      \<not> truthy (e ''CLAUDE_CODE_OAUTH_TOKEN'') \<longrightarrow> direct_error \<in> set (validation_errors e)) \<and>
   (\<forall>k \<in> set requiredBedrockVars. useBedrock e \<and> \<not> truthy (e k) \<longrightarrow>
      bedrock_error k \<in> set (validation_errors e)) \<and>
   (\<forall>k \<in> set requiredVertexVars. useVertex e \<and> \<not> useBedrock e \<and> \<not> truthy (e k) \<longrightarrow>
      vertex_error k \<in> set (validation_errors e)) \<and>
   (truthy (e ''GITLAB_CI_MODE'') \<and> \<not> truthy (e ''CI_PROJECT_DIR'') \<longrightarrow>
      project_dir_error \<in> set (validation_errors e))"
proof (intro conjI)
  show "validation_errors e = [] \<longrightarrow> snd (validateEnvironmentVariablesGitLab e) = Inr ()"
    by (simp add: validateEnvironmentVariablesGitLab_def)
  show "validation_errors e \<noteq> [] \<longrightarrow>
      (\<exists>msg. snd (validateEnvironmentVariablesGitLab e) = Inl (Error msg) \<and>
         split_nl msg = validation_header # map (\<lambda>m. ''  - '' @ m) (validation_errors e))"
    using validation_message_lines [of "validation_errors e"] validation_errors_no_nl [of _ e]
    by (auto simp: validateEnvironmentVariablesGitLab_def)
  show "useBedrock e \<and> useVertex e \<longrightarrow> conflict_error \<in> set (validation_errors e)"
    by (simp add: validation_errors_def)
  show "\<not> useBedrock e \<and> \<not> useVertex e \<and> \<not> truthy (e ''ANTHROPIC_API_KEY'') \<and>
      \<not> truthy (e ''CLAUDE_CODE_OAUTH_TOKEN'') \<longrightarrow> direct_error \<in> set (validation_errors e)"
    by (simp add: validation_errors_def)
  show "\<forall>k \<in> set requiredBedrockVars. useBedrock e \<and> \<not> truthy (e k) \<longrightarrow>
      bedrock_error k \<in> set (validation_errors e)"
    by (auto simp: validation_errors_def missing_def)
  show "\<forall>k \<in> set requiredVertexVars. useVertex e \<and> \<not> useBedrock e \<and> \<not> truthy (e k) \<longrightarrow>
      vertex_error k \<in> set (validation_errors e)"
    by (auto simp: validation_errors_def missing_def)
  show "truthy (e ''GITLAB_CI_MODE'') \<and> \<not> truthy (e ''CI_PROJECT_DIR'') \<longrightarrow>
      project_dir_error \<in> set (validation_errors e)"
    by (simp add: validation_errors_def)
qed


text \<open>
  Both providers selected and no credential at all: the message has the header, the
  conflict and the three missing Bedrock variables, each on its own line.
\<close>

theorem validate_lists_every_error_witness:
  "useBedrock (env_of [(''CLAUDE_USE_BEDROCK'', ''true''), (''CLAUDE_USE_VERTEX'', ''true'')]) \<and>
   useVertex (env_of [(''CLAUDE_USE_BEDROCK'', ''true''), (''CLAUDE_USE_VERTEX'', ''true'')]) \<and>
   (\<exists>msg. snd (validateEnvironmentVariablesGitLab
        (env_of [(''CLAUDE_USE_BEDROCK'', ''true''), (''CLAUDE_USE_VERTEX'', ''true'')])) = Inl (Error msg) \<and>
      split_nl msg =
        [validation_header,
         ''  - '' @ conflict_error,
         ''  - '' @ bedrock_error ''AWS_REGION'',
         ''  - '' @ bedrock_error ''AWS_ACCESS_KEY_ID'',
         ''  - '' @ bedrock_error ''AWS_SECRET_ACCESS_KEY''])"
  using validate_lists_every_error
    [of "env_of [(''CLAUDE_USE_BEDROCK'', ''true''), (''CLAUDE_USE_VERTEX'', ''true'')]"]
  by (simp add: validation_errors_def useBedrock_def useVertex_def env_of_def missing_def
      requiredBedrockVars_def truthy_def)

text \<open>
  Claim C7. With Bedrock selected, a region set, no static credentials and a platform
  identity token present, the validator logs that the token is used for AWS
  authentication and then throws: the two static credentials are still required.
  The claim is that it does not fail.
\<close>

theorem bedrock_oidc_token_noted_but_fails:
  "validateEnvironmentVariablesGitLab
     (env_of [(''CLAUDE_USE_BEDROCK'', ''true''), (''AWS_REGION'', ''us-west-2''),
              (''CI_JOB_JWT_V2'', ''token'')]) =
   ([''Using GitLab OIDC token for AWS authentication''],
    Inl (Error (validation_message
      [bedrock_error ''AWS_ACCESS_KEY_ID'', bedrock_error ''AWS_SECRET_ACCESS_KEY''])))"
  by (simp add: validateEnvironmentVariablesGitLab_def validation_errors_def validation_log_def
      useBedrock_def useVertex_def env_of_def missing_def requiredBedrockVars_def truthy_def
      oidcToken_def or_else_def)

text \<open>
  The same holds for every environment that selects Bedrock without an access key,
  whatever token it holds; on the Vertex path the service account key is not among
  the required variables, and the validator returns.
\<close>

lemma bedrock_without_key_fails:
  "useBedrock e \<Longrightarrow> \<not> truthy (e ''AWS_ACCESS_KEY_ID'') \<Longrightarrow>
   \<exists>msg. snd (validateEnvironmentVariablesGitLab e) = Inl (Error msg)"
  by (auto simp: validateEnvironmentVariablesGitLab_def validation_errors_def missing_def
      requiredBedrockVars_def)

lemma vertex_oidc_token_noted_and_passes:
  "\<not> useBedrock e \<Longrightarrow> useVertex e \<Longrightarrow> truthy (e ''ANTHROPIC_VERTEX_PROJECT_ID'') \<Longrightarrow>
   truthy (e ''CLOUD_ML_REGION'') \<Longrightarrow> \<not> truthy (e ''GOOGLE_APPLICATION_CREDENTIALS'') \<Longrightarrow>
   truthy (oidcToken e) \<Longrightarrow> \<not> truthy (e ''GITLAB_CI_MODE'') \<Longrightarrow>
   validateEnvironmentVariablesGitLab e =
     ([''Using GitLab OIDC token for GCP authentication''], Inr ())"
  by (simp add: validateEnvironmentVariablesGitLab_def validation_errors_def validation_log_def
      missing_def requiredVertexVars_def)

section \<open>The completion race\<close>

lemma emit_fields [simp]:
  "resolved (emit es st) = resolved st"
  "resolutions (emit es st) = resolutions st"
  "timer_cleared (emit es st) = timer_cleared st"
  "grace_armed (emit es st) = grace_armed st"
  "output_text (emit es st) = output_text st"
  "effects (emit es st) = effects st @ es"
  by (simp_all add: emit_def)

lemma handle_event_resolved:
  "resolved st \<Longrightarrow>
   resolved (handle_event P S t st ev) \<and> resolutions (handle_event P S t st ev) = resolutions st"
  by (cases ev) (simp_all add: on_close_def on_error_def on_timeout_def)

lemma handle_events_resolved:
  "resolved st \<Longrightarrow>
   resolved (handle_events P S t st evs) \<and> resolutions (handle_events P S t st evs) = resolutions st"
  unfolding handle_events_def
proof (induction evs arbitrary: st)
  case Nil
  then show ?case by simp
next
  case (Cons ev evs)
  from handle_event_resolved [OF Cons.prems, of P S t ev] Cons.IH [of "handle_event P S t st ev"]
  show ?case by simp
qed

lemma handle_event_idle:
  "pending st \<Longrightarrow> \<not> completes ev \<Longrightarrow> pending (handle_event P S t st ev)"
  by (cases ev) (simp_all add: pending_def completes_def)

lemma handle_events_idle:
  "pending st \<Longrightarrow> \<forall>ev \<in> set evs. \<not> completes ev \<Longrightarrow> pending (handle_events P S t st evs)"
  unfolding handle_events_def
  by (induction evs arbitrary: st) (simp_all add: handle_event_idle)

lemma handle_event_completes:
  "pending st \<Longrightarrow> completes ev \<Longrightarrow>
   resolved (handle_event P S t st ev) \<and> resolutions (handle_event P S t st ev) = [completion_code ev]"
  by (cases ev)
    (simp_all add: pending_def completes_def completion_code_def on_close_def on_error_def on_timeout_def)

lemma handle_events_append:
  "handle_events P S t st (xs @ ys) = handle_events P S t (handle_events P S t st xs) ys"
  by (simp add: handle_events_def)

lemma handle_events_Cons:
  "handle_events P S t st (x # xs) = handle_events P S t (handle_event P S t st x) xs"
  by (simp add: handle_events_def)

lemma pending_initial: "pending (initial_state es)"
  by (simp add: pending_def initial_state_def)

lemma resolutions_first_completion:
  assumes "pending st" "\<forall>e \<in> set pre. \<not> completes e" "completes ev"
  shows "resolutions (handle_events P S t st (pre @ ev # rest)) = [completion_code ev]"
proof -
  let ?st1 = "handle_events P S t st pre"
  let ?st2 = "handle_event P S t ?st1 ev"
  have "pending ?st1" using assms(1,2) by (rule handle_events_idle)
  then have "resolved ?st2 \<and> resolutions ?st2 = [completion_code ev]"
    using assms(3) by (rule handle_event_completes)
  then show ?thesis
    using handle_events_resolved [of ?st2 P S t rest]
    by (simp add: handle_events_append handle_events_Cons)
qed

lemma await_exit_first_completion:
  assumes "pending st" "\<forall>e \<in> set pre. \<not> completes e" "completes ev"
  shows "await_exit P S t st (pre @ ev # rest) =
     Some (completion_code ev, handle_event P S t (handle_events P S t st pre) ev, rest)"
  using assms(1,2)
proof (induction pre arbitrary: st)
  case Nil
  with handle_event_completes [OF Nil(1) assms(3), of P S t]
  show ?case by (simp add: settled_def handle_events_def)
next
  case (Cons e pre)
  then have p: "pending (handle_event P S t st e)" by (simp add: handle_event_idle)
  then have "settled (handle_event P S t st e) = None" by (simp add: settled_def pending_def)
  with Cons p show ?case by (simp add: handle_events_Cons)
qed

lemma await_exit_none:
  assumes "pending st" "\<forall>e \<in> set evs. \<not> completes e"
  shows "await_exit P S t st evs = None"
  using assms
proof (induction evs arbitrary: st)
  case Nil
  then show ?case by simp
next
  case (Cons e evs)
  then have p: "pending (handle_event P S t st e)" by (simp add: handle_event_idle)
  then have "settled (handle_event P S t st e) = None" by (simp add: settled_def pending_def)
  with Cons p show ?case by simp
qed


lemma exit_code_first_completion:
  assumes "\<forall>e \<in> set pre. \<not> completes e" "completes ev"
  shows "exit_code P S t (pre @ ev # rest) = Some (completion_code ev)"
  using resolutions_first_completion [OF pending_initial assms, of P S t "[]" rest]
  by (simp add: exit_code_def settled_def)

text \<open>
  Claim C3. Let the events of a run be any events that do not complete it, then one of
  close, error or timeout, then any events whatever. After all of them \<open>resolve\<close>
  has been called exactly once, with the exit code of that first completing event,
  and the \<open>await\<close> of the run returns that code at that event; the completing
  events that follow change nothing. (That a completing event arrives at all is the
  runtime's part: an armed timer fires.)
\<close>

theorem first_event_settles_once:
  assumes "\<forall>e \<in> set pre. \<not> completes e" and "completes ev"
  shows "resolutions (handle_events P S t (initial_state es) (pre @ ev # rest)) = [completion_code ev]
     \<and> await_exit P S t (initial_state es) (pre @ ev # rest) =
         Some (completion_code ev,
               handle_event P S t (handle_events P S t (initial_state es) pre) ev, rest)"
  using resolutions_first_completion [OF pending_initial assms, of P S t es rest]
    await_exit_first_completion [OF pending_initial assms, of P S t es rest]
  by simp

theorem first_event_settles_once_witness:
  "\<not> completes (Data ''x'') \<and> completes Timeout
   \<and> resolutions (handle_events JSON_parse JSON_stringify2 (Some 600000) (initial_state [])
        ([Data ''x''] @ Timeout # [Close (Some 0), ClaudeError ''gone'', Timeout])) = [124]
   \<and> resolutions (handle_events JSON_parse JSON_stringify2 (Some 600000) (initial_state [])
        ([] @ Close (Some 3) # [Timeout, ClaudeError ''gone''])) = [3]
   \<and> resolutions (handle_events JSON_parse JSON_stringify2 (Some 600000) (initial_state [])
        ([] @ ClaudeError ''gone'' # [Close (Some 3), Timeout])) = [1]"
  using first_event_settles_once [of "[Data ''x'']" Timeout JSON_parse JSON_stringify2 "Some 600000" "[]"
      "[Close (Some 0), ClaudeError ''gone'', Timeout]"]
    first_event_settles_once [of "[]" "Close (Some 3)" JSON_parse JSON_stringify2 "Some 600000" "[]"
      "[Timeout, ClaudeError ''gone'']"]
    first_event_settles_once [of "[]" "ClaudeError ''gone''" JSON_parse JSON_stringify2 "Some 600000" "[]"
      "[Close (Some 3), Timeout]"]
  by (simp add: completes_def completion_code_def code_or_zero_def)

text \<open>
  Claim C2, as amended. When the timeout is the first completing event, the exit code
  is 124 whatever follows; when the close of the assistant with a code \<open>c\<close> is the
  first, the exit code is \<open>c\<close>.
\<close>

theorem timeout_first_gives_124:
  assumes "\<forall>e \<in> set pre. \<not> completes e"
  shows "exit_code P S t (pre @ Timeout # rest) = Some 124
     \<and> exit_code P S t (pre @ Close (Some c) # rest) = Some c"
  using exit_code_first_completion [OF assms, of Timeout P S t rest]
    exit_code_first_completion [OF assms, of "Close (Some c)" P S t rest]
  by (simp add: completes_def completion_code_def code_or_zero_def)

theorem timeout_first_gives_124_witness:
  "\<not> completes (Data ''x'') \<and> \<not> completes (StdoutError ''e'')
   \<and> exit_code JSON_parse JSON_stringify2 (Some 600000)
        ([Data ''x'', StdoutError ''e''] @ Timeout # [GraceExpired, Close None]) = Some 124
   \<and> exit_code JSON_parse JSON_stringify2 (Some 600000)
        ([Data ''x'', StdoutError ''e''] @ Close (Some 2) # [GraceExpired, Close None]) = Some 2"
  using timeout_first_gives_124 [of "[Data ''x'', StdoutError ''e'']" JSON_parse JSON_stringify2
      "Some 600000" "[GraceExpired, Close None]" 2]
  by (simp add: completes_def)

text \<open>
  The exit code 124 is not distinct from the assistant's own exit codes: an assistant
  that exits with 124 gives the run the exit code of a timeout, and so does one that
  answers the termination signal of the watchdog by exiting with 124.
\<close>

theorem exit_code_124_not_reserved:
  "exit_code JSON_parse JSON_stringify2 (Some 600000) [Close (Some 124)] = Some 124
   \<and> exit_code JSON_parse JSON_stringify2 (Some 600000) [Timeout] = Some 124
   \<and> exit_code JSON_parse JSON_stringify2 (Some 600000) [Timeout, Close (Some 124)] = Some 124"
  by (simp add: exit_code_def handle_events_def settled_def initial_state_def on_close_def
      on_timeout_def code_or_zero_def emit_def)

subsection \<open>The null exit code\<close>

lemma on_close_null: "on_close None st = on_close (Some 0) st"
  by (simp add: on_close_def code_or_zero_def)

lemma post_process_events:
  "post_process pe (w\<lparr>events := evs\<rparr>) out = post_process pe w out"
  by (simp add: post_process_def split: option.splits sum.splits)

lemma conclude_success:
  "\<exists>es. conclude pe w 0 out = (es, Returned) \<and>
     ConsoleLog ''::set-output name=conclusion::success'' \<in> set es"
  by (auto simp: conclude_def setOutput_def split: prod.splits option.splits)

text \<open>
  Claim C10. In a run that reaches the wait for the assistant, if the assistant closes
  with a null exit code before any other completing event, the exit code is 0, the
  function returns after writing the conclusion \<open>success\<close>, and its effects and
  result are those of the run in which the assistant closes with the code 0.
\<close>

theorem null_exit_code_is_success:
  assumes "prepareRunConfig pe path options = Inr config"
    and "mkdir_error w = None" and "mkfifo_error w = None"
    and "resolve_timeout pe options = Inr t"
    and "\<forall>e \<in> set pre. \<not> completes e"
    and "events w = pre @ Close None # rest"
  shows "exit_code P S t (events w) = Some 0
     \<and> (\<exists>es. runClaudeGitLab P S pe w path options = (es, Returned)
           \<and> ConsoleLog ''::set-output name=conclusion::success'' \<in> set es
           \<and> runClaudeGitLab P S pe (w\<lparr>events := pre @ Close (Some 0) # rest\<rparr>) path options
               = (es, Returned))"
proof -
  let ?st0 = "initial_state (before_mkfifo pe @ announce w config @ spawn_all pe config @ [SetTimeout t])"
  let ?st1 = "handle_event P S t (handle_events P S t ?st0 pre) (Close None)"
  let ?st2 = "handle_events P S t
      (emit [Kill CatProcess SIGTERM, Kill PipeProcess SIGTERM, Unlink (PIPE_PATH pe)] ?st1) rest"
  have c: "completes (Close None)" "completes (Close (Some 0))"
    by (simp_all add: completes_def)
  have cc: "completion_code (Close None) = 0" "completion_code (Close (Some 0)) = 0"
    by (simp_all add: completion_code_def code_or_zero_def)
  have a1: "await_exit P S t ?st0 (pre @ Close None # rest) = Some (0, ?st1, rest)"
    using await_exit_first_completion [OF pending_initial assms(5) c(1), of P S t _ rest] cc by simp
  have a2: "await_exit P S t ?st0 (pre @ Close (Some 0) # rest) = Some (0, ?st1, rest)"
    using await_exit_first_completion [OF pending_initial assms(5) c(2), of P S t _ rest] cc
    by (simp add: on_close_null)
  obtain es where es: "conclude pe w 0 (output_text ?st2) = (es, Returned)"
    "ConsoleLog ''::set-output name=conclusion::success'' \<in> set es"
    using conclude_success by blast
  have w': "announce (w\<lparr>events := pre @ Close (Some 0) # rest\<rparr>) config = announce w config"
    "conclude pe (w\<lparr>events := pre @ Close (Some 0) # rest\<rparr>) 0 out = conclude pe w 0 out" for out
    by (simp_all add: announce_def conclude_def post_process_events)
  have r1: "runClaudeGitLab P S pe w path options = (effects ?st2 @ es, Returned)"
    using assms(1-4,6) a1 es(1) by (simp add: runClaudeGitLab_def)
  have r2: "runClaudeGitLab P S pe (w\<lparr>events := pre @ Close (Some 0) # rest\<rparr>) path options
      = (effects ?st2 @ es, Returned)"
    using assms(1-4) a2 es(1) w' by (simp add: runClaudeGitLab_def)
  have "exit_code P S t (events w) = Some 0"
    using exit_code_first_completion [OF assms(5) c(1), of P S t rest] cc assms(6) by simp
  with r1 r2 es(2) show ?thesis by auto
qed

text \<open>A run with no option set, in which the assistant writes a chunk and closes with \<open>null\<close>.\<close>

lemma prepare_no_options:
  "prepareRunConfig (env_of [(''CI_PROJECT_DIR'', ''/builds/p'')]) ''prompt.txt'' no_options =
     Inr \<lparr>claudeArgs = BASE_ARGS, promptPath = ''prompt.txt'', env = []\<rparr>"
  by (simp add: prepareRunConfig_def check_positive_def no_options_def push_opt_def
      parseCustomEnvVars_def env_of_def)

theorem null_exit_code_is_success_witness:
  "exit_code JSON_parse JSON_stringify2 (Some 600000)
      (events (calm_world ([Data ''hi''] @ Close None # [Timeout]))) = Some 0
   \<and> snd (runClaudeGitLab JSON_parse JSON_stringify2 (env_of [(''CI_PROJECT_DIR'', ''/builds/p'')])
        (calm_world ([Data ''hi''] @ Close None # [Timeout])) ''prompt.txt'' no_options) = Returned
   \<and> runClaudeGitLab JSON_parse JSON_stringify2 (env_of [(''CI_PROJECT_DIR'', ''/builds/p'')])
        (calm_world ([Data ''hi''] @ Close None # [Timeout])) ''prompt.txt'' no_options
     = runClaudeGitLab JSON_parse JSON_stringify2 (env_of [(''CI_PROJECT_DIR'', ''/builds/p'')])
        (calm_world ([Data ''hi''] @ Close (Some 0) # [Timeout])) ''prompt.txt'' no_options"
proof -
  let ?pe = "env_of [(''CI_PROJECT_DIR'', ''/builds/p'')]"
  let ?w = "calm_world ([Data ''hi''] @ Close None # [Timeout])"
  have h2: "mkdir_error ?w = None" and h3: "mkfifo_error ?w = None"
    by (simp_all add: calm_world_def)
  have h4: "resolve_timeout ?pe no_options = Inr (Some 600000)"
    by (simp add: resolve_timeout_def no_options_def truthy_def env_of_def)
  have h5: "\<forall>e \<in> set [Data ''hi'']. \<not> completes e"
    by (simp add: completes_def)
  have h6: "events ?w = [Data ''hi''] @ Close None # [Timeout]"
    by (simp add: calm_world_def)
  have w': "?w\<lparr>events := [Data ''hi''] @ Close (Some 0) # [Timeout]\<rparr>
      = calm_world ([Data ''hi''] @ Close (Some 0) # [Timeout])"
    by (simp add: calm_world_def)
  from null_exit_code_is_success [OF prepare_no_options h2 h3 h4 h5 h6, of JSON_parse JSON_stringify2]
  show ?thesis unfolding w' by auto
qed

section \<open>Numeric options\<close>

lemma prepare_bad_maxTurns:
  assumes "maxTurns options = Some s" and "s \<noteq> []" and "not_positive s"
  shows "prepareRunConfig pe path options = Inl (positive_error ''maxTurns'' s)"
  using assms by (simp add: prepareRunConfig_def check_positive_def)

text \<open>
  Claim C8, as amended. For every turn limit that is a non-empty string and for which
  \<open>parseInt\<close> gives no number or a number that is not positive, \<open>prepareRunConfig\<close>
  throws an error whose message ends with the offending string, and \<open>runClaudeGitLab\<close>
  throws the same error without a single effect.
\<close>

theorem bad_maxTurns_rejected_before_launch:
  assumes "maxTurns options = Some s" and "s \<noteq> []" and "not_positive s"
  shows "prepareRunConfig pe path options
           = Inl (Error (''maxTurns must be a positive number, got: '' @ s))
     \<and> runClaudeGitLab P S pe w path options
           = ([], Threw (Error (''maxTurns must be a positive number, got: '' @ s)))"
  using prepare_bad_maxTurns [OF assms, of pe path]
  by (simp add: runClaudeGitLab_def positive_error_def)

lemma parseInt_examples:
  "parseInt ''0'' = Some 0" "parseInt ''-3'' = Some (- 3)" "parseInt ''abc'' = None"
  "parseInt '''' = None" "parseInt ''5'' = Some 5"
  by (simp_all add: parseInt_def is_ws_def is_digit_def)

theorem bad_maxTurns_rejected_before_launch_witness:
  "not_positive ''0'' \<and> not_positive ''-3'' \<and> not_positive ''abc''
   \<and> prepareRunConfig (env_of []) ''prompt.txt'' (no_options\<lparr>maxTurns := Some ''0''\<rparr>)
       = Inl (Error ''maxTurns must be a positive number, got: 0'')
   \<and> prepareRunConfig (env_of []) ''prompt.txt'' (no_options\<lparr>maxTurns := Some ''-3''\<rparr>)
       = Inl (Error ''maxTurns must be a positive number, got: -3'')
   \<and> prepareRunConfig (env_of []) ''prompt.txt'' (no_options\<lparr>maxTurns := Some ''abc''\<rparr>)
       = Inl (Error ''maxTurns must be a positive number, got: abc'')
   \<and> runClaudeGitLab JSON_parse JSON_stringify2 (env_of []) (calm_world [Close (Some 0)])
        ''prompt.txt'' (no_options\<lparr>maxTurns := Some ''abc''\<rparr>)
       = ([], Threw (Error ''maxTurns must be a positive number, got: abc''))"
proof -
  have n: "not_positive ''0''" "not_positive ''-3''" "not_positive ''abc''"
    by (simp_all add: not_positive_def parseInt_examples)
  from n
    bad_maxTurns_rejected_before_launch [of "no_options\<lparr>maxTurns := Some ''0''\<rparr>" "''0''"
      "env_of []" "''prompt.txt''" JSON_parse JSON_stringify2 "calm_world [Close (Some 0)]"]
    bad_maxTurns_rejected_before_launch [of "no_options\<lparr>maxTurns := Some ''-3''\<rparr>" "''-3''"
      "env_of []" "''prompt.txt''" JSON_parse JSON_stringify2 "calm_world [Close (Some 0)]"]
    bad_maxTurns_rejected_before_launch [of "no_options\<lparr>maxTurns := Some ''abc''\<rparr>" "''abc''"
      "env_of []" "''prompt.txt''" JSON_parse JSON_stringify2 "calm_world [Close (Some 0)]"]
  show ?thesis by simp
qed

text \<open>
  The empty string does not parse as an integer, and \<open>prepareRunConfig\<close> accepts it:
  the test of the turn limit is skipped for a falsy option.
\<close>

theorem empty_maxTurns_accepted:
  "parseInt '''' = None
   \<and> prepareRunConfig (env_of []) ''prompt.txt'' (no_options\<lparr>maxTurns := Some ''''\<rparr>)
       = Inr \<lparr>claudeArgs = BASE_ARGS, promptPath = ''prompt.txt'', env = []\<rparr>"
  by (simp add: parseInt_examples prepareRunConfig_def check_positive_def no_options_def
      push_opt_def parseCustomEnvVars_def env_of_def)

text \<open>
  Claim C4. With no per-run timeout and the environment variable
  \<open>CLAUDE_TIMEOUT_MINUTES\<close> set to \<open>abc\<close>, the configuration error is thrown after
  the pipe was made and the prompt reader, the assistant and the pipe reader were
  spawned. The claim is that it is raised before any subprocess is spawned.
\<close>

theorem env_timeout_error_after_spawn:
  "runClaudeGitLab JSON_parse JSON_stringify2
     (env_of [(''CI_PROJECT_DIR'', ''/builds/p''), (''CLAUDE_TIMEOUT_MINUTES'', ''abc'')])
     (calm_world [Close (Some 0)]) ''prompt.txt'' no_options
   = ([MkdirSync ''/builds/p/.tmp'',
       Unlink ''/builds/p/.tmp/claude_prompt_pipe'',
       ExecAsync ''mkfifo \"/builds/p/.tmp/claude_prompt_pipe\"'',
       Stat ''prompt.txt'',
       ConsoleLog ''Prompt file size: 12 bytes'',
       ConsoleLog ''Running Claude with prompt from file: prompt.txt'',
       Spawn CatProcess ''cat'' [''prompt.txt''] [],
       CreateWriteStream ''/builds/p/.tmp/claude_prompt_pipe'',
       Spawn ClaudeProcess ''claude'' [''-p'', ''--verbose'', ''--output-format'', ''stream-json''] [],
       Spawn PipeProcess ''cat'' [''/builds/p/.tmp/claude_prompt_pipe''] []],
      Threw (Error ''CLAUDE_TIMEOUT_MINUTES must be a positive number, got: abc''))"
proof -
  have sn: "show_nat 12 = ''12''" by code_simp
  show ?thesis
    by (simp add: runClaudeGitLab_def prepareRunConfig_def check_positive_def no_options_def
        push_opt_def parseCustomEnvVars_def env_of_def calm_world_def resolve_timeout_def
        truthy_def template_def parseInt_examples positive_error_def before_mkfifo_def
        announce_def spawn_all_def customEnvKeys_def TEMP_DIR_def PIPE_PATH_def BASE_ARGS_def sn)
qed

text \<open>
  So it is for every environment-level timeout that is not a positive number, when the
  per-run timeout is not set and the directory and the pipe can be made.
\<close>

lemma env_timeout_error_is_late:
  assumes "prepareRunConfig pe path options = Inr config"
    and "mkdir_error w = None" and "mkfifo_error w = None"
    and "\<not> truthy (timeoutMinutes options)"
    and "pe ''CLAUDE_TIMEOUT_MINUTES'' = Some s" and "s \<noteq> []" and "not_positive s"
  shows "runClaudeGitLab P S pe w path options =
     (before_mkfifo pe @ announce w config @ spawn_all pe config,
      Threw (positive_error ''CLAUDE_TIMEOUT_MINUTES'' s))"
proof -
  from assms(4-7) have "resolve_timeout pe options = Inl (positive_error ''CLAUDE_TIMEOUT_MINUTES'' s)"
    by (auto simp: resolve_timeout_def truthy_def template_def not_positive_def split: option.splits)
  with assms(1-3) show ?thesis by (simp add: runClaudeGitLab_def)
qed

text \<open>An error of a per-run option, by contrast, is thrown before any effect.\<close>

lemma prepare_bad_timeoutMinutes:
  assumes "check_positive ''maxTurns'' (maxTurns options) = Inr ()"
    and "timeoutMinutes options = Some s" and "s \<noteq> []" and "not_positive s"
  shows "prepareRunConfig pe path options = Inl (positive_error ''timeoutMinutes'' s)"
  using assms by (simp add: prepareRunConfig_def check_positive_def)


lemma option_errors_have_no_effect:
  "prepareRunConfig pe path options = Inl e \<Longrightarrow>
   runClaudeGitLab P S pe w path options = ([], Threw e)"
  by (simp add: runClaudeGitLab_def)

section \<open>The relay of the output\<close>

lemma trim_Nil [simp]: "trim [] = []"
  by (simp add: trim_def)

lemma split_nl_single: "split_nl s = [l] \<Longrightarrow> s = l"
  by (induction s arbitrary: l) (auto simp: split_nl_not_Nil split: if_splits list.splits)

lemma split_nl_last_nl: "s \<noteq> [] \<Longrightarrow> last s = nl \<Longrightarrow> last (split_nl s) = []"
proof (induction s)
  case Nil
  then show ?case by simp
next
  case (Cons c cs)
  show ?case
  proof (cases "cs = []")
    case True
    with Cons.prems show ?thesis by simp
  next
    case False
    with Cons have l: "last (split_nl cs) = []" by simp
    obtain x xs where x: "split_nl cs = x # xs"
      using split_nl_not_Nil [of cs] by (cases "split_nl cs") auto
    have "xs \<noteq> []"
    proof
      assume "xs = []"
      with x l have "split_nl cs = [[]]" by simp
      then have "cs = []" by (rule split_nl_single)
      with False show False by simp
    qed
    with x l show ?thesis by simp
  qed
qed

lemma endsWith_nl_last: "endsWith_nl text \<Longrightarrow> last (split_nl text) = []"
  by (simp add: endsWith_nl_def split_nl_last_nl)

lemma relay_lines_concat:
  assumes "ls \<noteq> []" and "index + length ls = n" and "ends \<longrightarrow> blank (last ls)"
  shows "concat (relay_lines P S ends n index ls) =
     concat (map (\<lambda>l. render_line P S l @ [nl]) (filter (\<lambda>l. \<not> blank l) (butlast ls)))
     @ (if blank (last ls) then [] else render_line P S (last ls))"
  using assms
proof (induction ls arbitrary: index)
  case Nil
  then show ?case by simp
next
  case (Cons l ls)
  show ?case
  proof (cases "ls = []")
    case True
    with Cons.prems show ?thesis
      by (auto simp: blank_def render_line_def split: option.splits)
  next
    case False
    with Cons.prems have "int index < int n - 1" by (cases ls) auto
    moreover from False Cons.prems Cons.IH [of "index + 1"]
    have "concat (relay_lines P S ends n (index + 1) ls) =
       concat (map (\<lambda>l. render_line P S l @ [nl]) (filter (\<lambda>l. \<not> blank l) (butlast ls)))
       @ (if blank (last ls) then [] else render_line P S (last ls))"
      by simp
    ultimately show ?thesis
      using False by (simp add: blank_def render_line_def split: option.splits)
  qed
qed

lemma relay_eq:
  "relay P S text =
     concat (map (\<lambda>l. render_line P S l @ [nl])
               (filter (\<lambda>l. \<not> blank l) (butlast (split_nl text))))
     @ (if blank (last (split_nl text)) then [] else render_line P S (last (split_nl text)))"
  unfolding relay_def relay_writes_def Let_def
  by (rule relay_lines_concat)
     (simp_all add: split_nl_not_Nil endsWith_nl_last blank_def)

lemma join_nl_snoc:
  "ls \<noteq> [] \<Longrightarrow> join [nl] ls = concat (map (\<lambda>l. l @ [nl]) (butlast ls)) @ last ls"
proof (induction ls)
  case Nil
  then show ?case by simp
next
  case (Cons l ls)
  then show ?case by (cases ls) auto
qed

lemma relay_as_claimed_eq:
  "relay_as_claimed P S text =
     concat (map (\<lambda>l. render_line P S l @ [nl]) (butlast (split_nl text)))
     @ render_line P S (last (split_nl text))"
  using join_nl_snoc [of "map (render_line P S) (split_nl text)"] split_nl_not_Nil [of "text"]
  by (simp add: relay_as_claimed_def map_butlast [symmetric] last_map comp_def)

text \<open>
  Claim C5, as amended. For every chunk, what the relay writes is: each line of the
  chunk that is not blank, pretty-printed by \<open>S\<close> when \<open>P\<close> parses it and verbatim
  when not, followed by a line feed exactly when it is not the last piece of the
  chunk; a blank line (empty or white space only) is dropped together with its line
  feed. So a last line without a line feed is given none, and for a chunk with no
  blank line (an empty last piece apart) the relay is the chunk with every line
  rendered and every line feed in its place.
\<close>

theorem relay_renders_nonblank_lines:
  "relay P S text =
     concat (map (\<lambda>l. render_line P S l @ [nl])
               (filter (\<lambda>l. \<not> blank l) (butlast (split_nl text))))
     @ (if blank (last (split_nl text)) then [] else render_line P S (last (split_nl text)))
   \<and> ((\<forall>l \<in> set (butlast (split_nl text)). \<not> blank l)
        \<and> (last (split_nl text) = [] \<or> \<not> blank (last (split_nl text)))
        \<and> P [] = None
      \<longrightarrow> relay P S text = relay_as_claimed P S text)"
proof (intro conjI impI)
  show "relay P S text =
     concat (map (\<lambda>l. render_line P S l @ [nl])
               (filter (\<lambda>l. \<not> blank l) (butlast (split_nl text))))
     @ (if blank (last (split_nl text)) then [] else render_line P S (last (split_nl text)))"
    by (rule relay_eq)
next
  assume h: "(\<forall>l \<in> set (butlast (split_nl text)). \<not> blank l)
        \<and> (last (split_nl text) = [] \<or> \<not> blank (last (split_nl text)))
        \<and> P [] = None"
  then have f: "filter (\<lambda>l. \<not> blank l) (butlast (split_nl text)) = butlast (split_nl text)"
    by simp
  from h have "(if blank (last (split_nl text)) then [] else render_line P S (last (split_nl text)))
      = render_line P S (last (split_nl text))"
    by (auto simp: render_line_def blank_def)
  with f show "relay P S text = relay_as_claimed P S text"
    by (simp add: relay_eq relay_as_claimed_eq)
qed

theorem relay_renders_nonblank_lines_witness:
  "relay JSON_parse JSON_stringify2 (''{\"a\":1}'' @ [nl] @ ''not json'' @ [nl] @ ''[true]'')
     = ''{'' @ [nl] @ ''  \"a\": 1'' @ [nl] @ ''}'' @ [nl] @ ''not json'' @ [nl]
       @ ''['' @ [nl] @ ''  true'' @ [nl] @ '']''
   \<and> relay JSON_parse JSON_stringify2 (''{\"a\":1}'' @ [nl] @ ''not json'' @ [nl])
     = ''{'' @ [nl] @ ''  \"a\": 1'' @ [nl] @ ''}'' @ [nl] @ ''not json'' @ [nl]"
proof -
  let ?t1 = "''{\"a\":1}'' @ [nl] @ ''not json'' @ [nl] @ ''[true]''"
  let ?t2 = "''{\"a\":1}'' @ [nl] @ ''not json'' @ [nl]"
  have h1: "(\<forall>l \<in> set (butlast (split_nl ?t1)). \<not> blank l)
        \<and> (last (split_nl ?t1) = [] \<or> \<not> blank (last (split_nl ?t1)))
        \<and> JSON_parse [] = None"
    by code_simp
  have h2: "(\<forall>l \<in> set (butlast (split_nl ?t2)). \<not> blank l)
        \<and> (last (split_nl ?t2) = [] \<or> \<not> blank (last (split_nl ?t2)))
        \<and> JSON_parse [] = None"
    by code_simp
  have c1: "relay_as_claimed JSON_parse JSON_stringify2 ?t1
     = ''{'' @ [nl] @ ''  \"a\": 1'' @ [nl] @ ''}'' @ [nl] @ ''not json'' @ [nl]
       @ ''['' @ [nl] @ ''  true'' @ [nl] @ '']''"
    by code_simp
  have c2: "relay_as_claimed JSON_parse JSON_stringify2 ?t2
     = ''{'' @ [nl] @ ''  \"a\": 1'' @ [nl] @ ''}'' @ [nl] @ ''not json'' @ [nl]"
    by code_simp
  have r1: "relay JSON_parse JSON_stringify2 ?t1 = relay_as_claimed JSON_parse JSON_stringify2 ?t1"
    by (rule relay_renders_nonblank_lines [of JSON_parse JSON_stringify2 "?t1", THEN conjunct2, THEN mp, OF h1])
  have r2: "relay JSON_parse JSON_stringify2 ?t2 = relay_as_claimed JSON_parse JSON_stringify2 ?t2"
    by (rule relay_renders_nonblank_lines [of JSON_parse JSON_stringify2 "?t2", THEN conjunct2, THEN mp, OF h2])
  show ?thesis
    unfolding r1 r2 c1 c2 by (rule conjI) (rule refl)+
qed

text \<open>
  A blank line of the chunk is not relayed: the line feed that ends it is lost, and
  the white space of a line of spaces with it.
\<close>

theorem relay_drops_blank_lines:
  "relay JSON_parse JSON_stringify2 (''a'' @ [nl, nl] @ ''b'') = ''a'' @ [nl] @ ''b''
   \<and> relay_as_claimed JSON_parse JSON_stringify2 (''a'' @ [nl, nl] @ ''b'') = ''a'' @ [nl, nl] @ ''b''
   \<and> relay JSON_parse JSON_stringify2 (''a'' @ [nl] @ ''  '' @ [nl] @ ''b'') = ''a'' @ [nl] @ ''b''
   \<and> relay_as_claimed JSON_parse JSON_stringify2 (''a'' @ [nl] @ ''  '' @ [nl] @ ''b'')
        = ''a'' @ [nl] @ ''  '' @ [nl] @ ''b''"
  by code_simp

section \<open>The settings merger, from the spec\<close>

lemma map_of_assign: "map_of (assign k v xs) = (map_of xs)(k \<mapsto> v)"
  by (induction xs) (auto simp: fun_eq_iff)

lemma lookup_assign_same: "lookup_field (assign k v doc) k = Some v"
  by (simp add: lookup_field_def map_of_assign)

lemma lookup_assign_other: "k' \<noteq> k \<Longrightarrow> lookup_field (assign k v doc) k' = lookup_field doc k'"
  by (simp add: lookup_field_def map_of_assign)

lemma lookup_shallow_merge:
  "lookup_field (shallow_merge old new) k = (case map_of (rev new) k of Some v \<Rightarrow> Some v | None \<Rightarrow> lookup_field old k)"
  unfolding shallow_merge_def lookup_field_def
proof (induction new arbitrary: old)
  case Nil
  then show ?case by simp
next
  case (Cons kv new)
  show ?case
    by (cases kv) (auto simp: Cons.IH map_of_assign map_add_def split: option.splits)
qed

lemma lay_over_Cons:
  "lay_over m ((k, v) # xs) = (k, last_value m k v) # lay_over (filter (\<lambda>kv. fst kv \<noteq> k) m) xs"
proof (induction m arbitrary: v xs)
  case Nil
  then show ?case by (simp add: lay_over_def last_value_def)
next
  case (Cons ab m)
  obtain a b where ab: "ab = (a, b)" by (cases ab)
  show ?case
  proof (cases "a = k")
    case True
    have "lay_over (ab # m) ((k, v) # xs) = lay_over m ((k, b) # xs)"
      using True ab by (simp add: lay_over_def)
    also have "\<dots> = (k, last_value m k b) # lay_over (filter (\<lambda>kv. fst kv \<noteq> k) m) xs"
      by (rule Cons.IH)
    finally show ?thesis
      using True ab by (simp add: last_value_def map_add_def split: option.splits)
  next
    case False
    have "lay_over (ab # m) ((k, v) # xs) = lay_over m ((k, v) # assign a b xs)"
      using False ab by (simp add: lay_over_def)
    also have "\<dots> = (k, last_value m k v) # lay_over (filter (\<lambda>kv. fst kv \<noteq> k) m) (assign a b xs)"
      by (rule Cons.IH)
    finally show ?thesis
      using False ab by (simp add: last_value_def lay_over_def map_add_def split: option.splits)
  qed
qed

lemma last_value_idem: "last_value m k (last_value m k v) = last_value m k v"
  by (simp add: last_value_def split: option.splits)

lemma lay_over_Nil_step:
  "lay_over ((a, b) # m) [] = (a, last_value m a b) # lay_over (filter (\<lambda>kv. fst kv \<noteq> a) m) []"
proof -
  have "lay_over ((a, b) # m) [] = lay_over m [(a, b)]" by (simp add: lay_over_def)
  then show ?thesis by (simp add: lay_over_Cons)
qed

lemma last_value_head: "last_value ((a, b) # m) a v = last_value m a b"
  by (simp add: last_value_def map_add_def split: option.splits)

lemma lay_over_twice_Nil: "lay_over m (lay_over m []) = lay_over m []"
proof (induction "length m" arbitrary: m rule: less_induct)
  case less
  show ?case
  proof (cases m)
    case Nil
    then show ?thesis by (simp add: lay_over_def)
  next
    case (Cons ab m')
    obtain a b where ab: "ab = (a, b)" by (cases ab)
    let ?f = "filter (\<lambda>kv. fst kv \<noteq> a) m'"
    have len: "length ?f < length m" using Cons by (simp add: less_Suc_eq_le)
    have f: "filter (\<lambda>kv. fst kv \<noteq> a) m = ?f" using Cons ab by simp
    have "lay_over m [] = (a, last_value m' a b) # lay_over ?f []"
      using Cons ab by (simp add: lay_over_Nil_step)
    moreover have "lay_over m ((a, last_value m' a b) # lay_over ?f [])
        = (a, last_value m a (last_value m' a b)) # lay_over ?f (lay_over ?f [])"
      by (simp add: lay_over_Cons f)
    moreover have "last_value m a (last_value m' a b) = last_value m' a b"
      using Cons ab by (simp add: last_value_head)
    moreover have "lay_over ?f (lay_over ?f []) = lay_over ?f []"
      using less len by simp
    ultimately show ?thesis by simp
  qed
qed

lemma lay_over_twice: "lay_over m (lay_over m xs) = lay_over m xs"
proof (induction xs arbitrary: m)
  case Nil
  then show ?case by (rule lay_over_twice_Nil)
next
  case (Cons kv xs)
  obtain k v where kv: "kv = (k, v)" by (cases kv)
  show ?case
    by (simp add: kv lay_over_Cons last_value_idem Cons.IH)
qed

lemma forced_merge_as_lay_over:
  "assign k v (shallow_merge old new) = lay_over (new @ [(k, v)]) old"
  by (simp add: shallow_merge_def lay_over_def)

lemma forced_merge_twice:
  "assign k v (shallow_merge (assign k v (shallow_merge old new)) new)
     = assign k v (shallow_merge old new)"
  by (simp add: forced_merge_as_lay_over lay_over_twice)

text \<open>
  Claim C1. For an absent input, a blank input, an input that parses as JSON, and an
  input that names a readable file whose text parses as JSON, the merger succeeds
  and the document it leaves at the settings path has the forced field equal to
  \<open>true\<close>, whatever the input and the earlier document say about that field.
\<close>

theorem settings_forced_field_true:
  assumes "rawInput = None
      \<or> (\<exists>s. rawInput = Some s \<and>
            (trim s = [] \<or> P s \<noteq> None \<or> (\<exists>content. files s = Some content \<and> P content \<noteq> None)))"
  shows "\<exists>disk' doc. setupClaudeCodeSettings P files home disk rawInput = Inr disk'
      \<and> disk' (settingsPath home) = Some doc
      \<and> lookup_field doc FORCED_FIELD = Some (JBool True)"
proof -
  from assms have "\<exists>new. resolve_input P files rawInput = Inr new"
    by (auto simp: resolve_input_def split: option.splits)
  then obtain new where "resolve_input P files rawInput = Inr new" ..
  then show ?thesis
    by (simp add: setupClaudeCodeSettings_def lookup_assign_same)
qed

text \<open>
  Claim C9. When the merger has succeeded on an input, running it again on the same
  input succeeds and leaves the disk as it was: the same document, key for key and
  in the same order, with the forced field \<open>true\<close>.
\<close>

theorem settings_merge_idempotent:
  assumes "setupClaudeCodeSettings P files home disk rawInput = Inr disk'"
  shows "setupClaudeCodeSettings P files home disk' rawInput = Inr disk'
     \<and> (\<exists>doc. disk' (settingsPath home) = Some doc \<and> lookup_field doc FORCED_FIELD = Some (JBool True))"
proof -
  from assms obtain new where n: "resolve_input P files rawInput = Inr new"
    by (auto simp: setupClaudeCodeSettings_def split: sum.splits)
  let ?old = "case disk (settingsPath home) of None \<Rightarrow> [] | Some doc \<Rightarrow> doc"
  let ?doc = "assign FORCED_FIELD (JBool True) (shallow_merge ?old new)"
  from assms n have d: "disk' = disk(settingsPath home \<mapsto> ?doc)"
    by (simp add: setupClaudeCodeSettings_def)
  have "setupClaudeCodeSettings P files home disk' rawInput
      = Inr (disk'(settingsPath home \<mapsto> assign FORCED_FIELD (JBool True) (shallow_merge ?doc new)))"
    using n d by (simp add: setupClaudeCodeSettings_def)
  also have "assign FORCED_FIELD (JBool True) (shallow_merge ?doc new) = ?doc"
    by (rule forced_merge_twice)
  also have "disk'(settingsPath home \<mapsto> ?doc) = disk'"
    using d by (simp add: fun_eq_iff)
  finally have r: "setupClaudeCodeSettings P files home disk' rawInput = Inr disk'" .
  have "disk' (settingsPath home) = Some ?doc"
    by (subst d) simp
  moreover have "lookup_field ?doc FORCED_FIELD = Some (JBool True)"
    by (rule lookup_assign_same)
  ultimately show ?thesis using r by blast
qed


subsection \<open>The merger on the inputs of its tests\<close>

text \<open>
  The input of the test that sets the forced field to \<open>false\<close>, given inline and
  through a file, then a white-space input and an absent one.
\<close>

lemma parse_settings_example:
  "JSON_parse ''{\"enableAllProjectMcpServers\": false, \"model\": \"test-model\"}''
     = Some (JObject [(''enableAllProjectMcpServers'', JBool False), (''model'', JString ''test-model'')])"
  by code_simp

lemma parse_settings_file_example:
  "JSON_parse ''/ci/settings.json'' = None"
  by code_simp

lemma trim_blank_example: "trim ([CHR 0x20, CHR 0x20, nl, CHR 0x09, CHR 0x20]) = []"
  by (simp add: trim_def is_ws_def)

theorem settings_forced_field_true_witness:
  "(\<exists>disk' doc. setupClaudeCodeSettings JSON_parse no_files ''/home/ci'' empty_disk
        (Some ''{\"enableAllProjectMcpServers\": false, \"model\": \"test-model\"}'') = Inr disk'
      \<and> disk' (settingsPath ''/home/ci'') = Some doc
      \<and> lookup_field doc FORCED_FIELD = Some (JBool True))
   \<and> (\<exists>disk' doc. setupClaudeCodeSettings JSON_parse
        (\<lambda>p. if p = ''/ci/settings.json'' then Some ''{\"enableAllProjectMcpServers\": false, \"model\": \"test-model\"}'' else None)
        ''/home/ci'' empty_disk (Some ''/ci/settings.json'') = Inr disk'
      \<and> disk' (settingsPath ''/home/ci'') = Some doc
      \<and> lookup_field doc FORCED_FIELD = Some (JBool True))
   \<and> (\<exists>disk' doc. setupClaudeCodeSettings JSON_parse no_files ''/home/ci'' empty_disk
        (Some [CHR 0x20, CHR 0x20, nl, CHR 0x09, CHR 0x20]) = Inr disk'
      \<and> disk' (settingsPath ''/home/ci'') = Some doc
      \<and> lookup_field doc FORCED_FIELD = Some (JBool True))
   \<and> (\<exists>disk' doc. setupClaudeCodeSettings JSON_parse no_files ''/home/ci'' empty_disk None = Inr disk'
      \<and> disk' (settingsPath ''/home/ci'') = Some doc
      \<and> lookup_field doc FORCED_FIELD = Some (JBool True))"
proof (intro conjI)
  show "\<exists>disk' doc. setupClaudeCodeSettings JSON_parse no_files ''/home/ci'' empty_disk
        (Some ''{\"enableAllProjectMcpServers\": false, \"model\": \"test-model\"}'') = Inr disk'
      \<and> disk' (settingsPath ''/home/ci'') = Some doc
      \<and> lookup_field doc FORCED_FIELD = Some (JBool True)"
    by (rule settings_forced_field_true) (simp add: parse_settings_example)
  show "\<exists>disk' doc. setupClaudeCodeSettings JSON_parse
        (\<lambda>p. if p = ''/ci/settings.json'' then Some ''{\"enableAllProjectMcpServers\": false, \"model\": \"test-model\"}'' else None)
        ''/home/ci'' empty_disk (Some ''/ci/settings.json'') = Inr disk'
      \<and> disk' (settingsPath ''/home/ci'') = Some doc
      \<and> lookup_field doc FORCED_FIELD = Some (JBool True)"
    by (rule settings_forced_field_true) (simp add: parse_settings_example)
  show "\<exists>disk' doc. setupClaudeCodeSettings JSON_parse no_files ''/home/ci'' empty_disk
        (Some [CHR 0x20, CHR 0x20, nl, CHR 0x09, CHR 0x20]) = Inr disk'
      \<and> disk' (settingsPath ''/home/ci'') = Some doc
      \<and> lookup_field doc FORCED_FIELD = Some (JBool True)"
    by (rule settings_forced_field_true) (simp add: trim_blank_example)
  show "\<exists>disk' doc. setupClaudeCodeSettings JSON_parse no_files ''/home/ci'' empty_disk None = Inr disk'
      \<and> disk' (settingsPath ''/home/ci'') = Some doc
      \<and> lookup_field doc FORCED_FIELD = Some (JBool True)"
    by (rule settings_forced_field_true) simp
qed

lemma setup_example:
  "setupClaudeCodeSettings JSON_parse no_files ''/home/ci'' empty_disk
      (Some ''{\"enableAllProjectMcpServers\": false, \"model\": \"test-model\"}'')
   = Inr (empty_disk(settingsPath ''/home/ci'' \<mapsto>
        [(''enableAllProjectMcpServers'', JBool True), (''model'', JString ''test-model'')]))"
  by (simp add: setupClaudeCodeSettings_def resolve_input_def parse_settings_example trim_def
      is_ws_def members_def shallow_merge_def empty_disk_def FORCED_FIELD_def)

theorem settings_merge_idempotent_witness:
  "setupClaudeCodeSettings JSON_parse no_files ''/home/ci''
      (empty_disk(settingsPath ''/home/ci'' \<mapsto>
        [(''enableAllProjectMcpServers'', JBool True), (''model'', JString ''test-model'')]))
      (Some ''{\"enableAllProjectMcpServers\": false, \"model\": \"test-model\"}'')
   = Inr (empty_disk(settingsPath ''/home/ci'' \<mapsto>
        [(''enableAllProjectMcpServers'', JBool True), (''model'', JString ''test-model'')]))
   \<and> setupClaudeCodeSettings JSON_parse no_files ''/home/ci'' empty_disk
      (Some ''{\"enableAllProjectMcpServers\": false, \"model\": \"test-model\"}'')
   = Inr (empty_disk(settingsPath ''/home/ci'' \<mapsto>
        [(''enableAllProjectMcpServers'', JBool True), (''model'', JString ''test-model'')]))"
  using settings_merge_idempotent [OF setup_example] setup_example by blast

end
